theory Spec2Isabelle
  imports Main "HOL-Library.Word"
begin

section \<open>Data model\<close>

text \<open>
  The crawler of \<^verbatim>\<open>crawler/crawler.go\<close> works on references, crawl tasks and the
  listing objects of the filesystem client. Structs are records; the fields carry a
  prefix because several structs share the field names \<^verbatim>\<open>Hash\<close>, \<^verbatim>\<open>Name\<close>,
  \<^verbatim>\<open>Size\<close> and \<^verbatim>\<open>Type\<close>. A Go slice that may be \<^verbatim>\<open>nil\<close> is a
  \<open>list option\<close>, \<open>None\<close> being \<^verbatim>\<open>nil\<close>; an \<^verbatim>\<open>error\<close> value is a
  \<open>go_error option\<close>, \<open>None\<close> being \<^verbatim>\<open>nil\<close>; \<^verbatim>\<open>uint64\<close> is \<open>64 word\<close>.
\<close>

type_synonym uint64 = "64 word"

record Reference =
  ref_Name :: string
  ref_ParentHash :: string

record CrawlerArgs =
  args_Hash :: string
  args_Name :: string
  args_Size :: uint64
  args_ParentHash :: string
  args_ParentName :: string

record UnixLsLink =
  link_Hash :: string
  link_Name :: string
  link_Size :: uint64
  link_Type :: string

record UnixLsObject =
  obj_Hash :: string
  obj_Size :: uint64
  obj_Type :: string
  obj_Links :: "UnixLsLink list"

text \<open>
  The values of a \<^verbatim>\<open>map[string]interface{}\<close> that the crawler stores: an error
  message, a size, a reference list, the links of a directory, or a value decoded from
  the extraction service's JSON (kept as its text).
\<close>

datatype prop_value =
    PString string
  | PUint64 uint64
  | PReferences "Reference list option"
  | PLinks "UnixLsLink list"
  | PJson string

type_synonym properties = "string \<rightharpoonup> prop_value"

text \<open>
  Errors, by the dynamic types that \<^verbatim>\<open>handleError\<close> tells apart: a
  \<^verbatim>\<open>*shell.Error\<close> (with the text of its \<^verbatim>\<open>Error()\<close>), a \<^verbatim>\<open>*url.Error\<close> (with
  the answers of its \<^verbatim>\<open>Timeout()\<close> and \<^verbatim>\<open>Temporary()\<close> methods and its wrapped
  \<^verbatim>\<open>Err\<close>), and every other error. The wrapped error of a URL error is a
  \<^verbatim>\<open>*net.OpError\<close> (with its \<^verbatim>\<open>Op\<close>), a \<^verbatim>\<open>syscall.Errno\<close>, or something else.
\<close>

datatype net_error =
    OpError string
  | Errno nat
  | OtherNetError string

datatype go_error =
    ShellError string
  | UrlError bool bool net_error
  | OtherError string

datatype go_panic =
    PanicError go_error
  | PanicCreatingRequest go_error
  | PanicNilDereference

datatype 'a outcome = Returned 'a | Panicked go_panic

text \<open>
  What the crawler does to its collaborators, in order. The answer of a collaborator may
  depend on everything that happened before, so every collaborator reads the events so
  far.
\<close>

datatype event =
    EvGetReferences string
  | EvIndexItem string string properties
  | EvFileList string
  | EvAddTaskFiles CrawlerArgs
  | EvAddTaskHashes CrawlerArgs
  | EvHttpGet string
  | EvSleep nat

type_synonym trace = "event list"

record http_response =
  resp_StatusCode :: nat
  resp_Status :: string
  resp_Body :: string

text \<open>
  The collaborators of a \<^verbatim>\<open>Crawler\<close>: the filesystem shell \<^verbatim>\<open>sh\<close>, the indexer
  \<^verbatim>\<open>id\<close>, the file queue \<^verbatim>\<open>fq\<close> and the hash (directory) queue \<^verbatim>\<open>hq\<close>.
\<close>

record Crawler =
  sh_FileList :: "trace \<Rightarrow> string \<Rightarrow> UnixLsObject option \<times> go_error option"
  id_GetReferences :: "trace \<Rightarrow> string \<Rightarrow> Reference list option \<times> string \<times> go_error option"
  id_IndexItem :: "trace \<Rightarrow> string \<Rightarrow> string \<Rightarrow> properties \<Rightarrow> go_error option"
  fq_AddTask :: "trace \<Rightarrow> CrawlerArgs \<Rightarrow> go_error option"
  hq_AddTask :: "trace \<Rightarrow> CrawlerArgs \<Rightarrow> go_error option"

text \<open>
  The HTTP client and the JSON decoder that \<^verbatim>\<open>getMetadata\<close> uses. By the contract of
  \<^verbatim>\<open>net/http\<close> a request gives either an error or a response.
\<close>

record Net =
  http_Get :: "trace \<Rightarrow> string \<Rightarrow> go_error + http_response"
  json_Decode :: "string \<Rightarrow> properties \<Rightarrow> properties \<times> go_error option"

section \<open>Constants\<close>

definition Second :: nat where
  "Second = 1000000000"

definition RECONNECT_WAIT :: nat where
  "RECONNECT_WAIT = 2"

definition METADATA_MAX_SIZE :: uint64 where
  "METADATA_MAX_SIZE = 50 * 1024 * 1024"

definition PARTIAL_SIZE :: uint64 where
  "PARTIAL_SIZE = 262144"

text \<open>\<^verbatim>\<open>syscall.ECONNREFUSED\<close>, as Linux numbers it.\<close>

definition ECONNREFUSED :: nat where
  "ECONNREFUSED = 111"

section \<open>References\<close>

definition hashUrl :: "string \<Rightarrow> string" where
  "hashUrl hash = ''/ipfs/'' @ hash"

text \<open>The loop of \<^verbatim>\<open>update_references\<close>: is there a reference from this parent?\<close>

primrec has_parent :: "Reference list \<Rightarrow> string \<Rightarrow> bool" where
  "has_parent [] parent_hash = False"
| "has_parent (reference # rest) parent_hash =
     (if ref_ParentHash reference = parent_hash then True else has_parent rest parent_hash)"

definition update_references ::
  "Reference list option \<Rightarrow> string \<Rightarrow> string \<Rightarrow> Reference list \<times> bool" where
  "update_references references name parent_hash =
     (let references = (case references of None \<Rightarrow> [] | Some rs \<Rightarrow> rs) in
      if parent_hash = '''' then (references, False)
      else if has_parent references parent_hash then (references, False)
      else (references @ [\<lparr>ref_Name = name, ref_ParentHash = parent_hash\<rparr>], True))"

section \<open>Error classification\<close>

text \<open>\<^verbatim>\<open>strings.Contains\<close>: does \<open>substr\<close> occur in \<open>s\<close>?\<close>

definition has_prefix :: "string \<Rightarrow> string \<Rightarrow> bool" where
  "has_prefix s p = (take (length p) s = p)"

primrec strings_Contains :: "string \<Rightarrow> string \<Rightarrow> bool" where
  "strings_Contains [] substr = (substr = [])"
| "strings_Contains (ch # s) substr =
     (has_prefix (ch # s) substr \<or> strings_Contains s substr)"

text \<open>
  \<^verbatim>\<open>handleError\<close> returns the pair (try again, error), or panics after asking the
  indexer to store an \<^verbatim>\<open>invalid\<close> record; the indexer's answer to that request is
  thrown away. A \<^verbatim>\<open>nil\<close> error fails both type assertions and comes back as
  \<^verbatim>\<open>(false, nil)\<close>.
\<close>

definition handleError ::
  "Crawler \<Rightarrow> go_error option \<Rightarrow> string \<Rightarrow> trace \<Rightarrow> (bool \<times> go_error option) outcome \<times> trace" where
  "handleError c err hash tr =
     (case err of
        None \<Rightarrow> (Returned (False, err), tr)
      | Some (ShellError msg) \<Rightarrow>
          if strings_Contains msg ''proto''
          then (Panicked (PanicError (ShellError msg)),
                tr @ [EvIndexItem ''invalid'' hash [''error'' \<mapsto> PString msg]])
          else (Returned (False, err), tr)
      | Some (UrlError timeout temporary inner) \<Rightarrow>
          if timeout then (Returned (False, err), tr)
          else if temporary then (Returned (True, None), tr)
          else (case inner of
                  OpError op \<Rightarrow>
                    if op = ''dial'' then (Returned (True, None), tr)
                    else if op = ''read'' then (Returned (True, None), tr)
                    else (Returned (False, err), tr)
                | Errno t \<Rightarrow>
                    if t = ECONNREFUSED then (Returned (True, None), tr)
                    else (Returned (False, err), tr)
                | OtherNetError m \<Rightarrow> (Returned (False, err), tr))
      | Some (OtherError m) \<Rightarrow> (Returned (False, err), tr))"

text \<open>
  The classes of the design, in its words: protocol-level errors are fatal; timeouts
  are non-retryable; temporary network conditions (an explicit temporary signal, a
  refused connection, a dial failure, a read failure) are retryable; everything else
  is non-retryable. An error is recognised as protocol-level when it is a shell error
  whose text mentions \<^verbatim>\<open>proto\<close>, and as a timeout or a temporary network condition
  when it is a URL error that says so.
\<close>

datatype error_class = Fatal | NonRetryable | Retryable

definition is_protocol_error :: "go_error \<Rightarrow> bool" where
  "is_protocol_error e =
     (case e of ShellError msg \<Rightarrow> strings_Contains msg ''proto'' | _ \<Rightarrow> False)"

definition is_timeout :: "go_error \<Rightarrow> bool" where
  "is_timeout e = (case e of UrlError timeout temporary inner \<Rightarrow> timeout | _ \<Rightarrow> False)"

definition is_temporary_network :: "go_error \<Rightarrow> bool" where
  "is_temporary_network e =
     (case e of
        UrlError timeout temporary inner \<Rightarrow>
          temporary \<or> inner = OpError ''dial'' \<or> inner = OpError ''read''
            \<or> inner = Errno ECONNREFUSED
      | _ \<Rightarrow> False)"

definition spec_classify :: "go_error \<Rightarrow> error_class" where
  "spec_classify e =
     (if is_protocol_error e then Fatal
      else if is_timeout e then NonRetryable
      else if is_temporary_network e then Retryable
      else NonRetryable)"

text \<open>The text of \<^verbatim>\<open>err.Error()\<close> of a shell error, which is all the crawler stores.\<close>

definition shell_error_text :: "go_error \<Rightarrow> string" where
  "shell_error_text e = (case e of ShellError msg \<Rightarrow> msg | _ \<Rightarrow> [])"

section \<open>Deduplication against the index\<close>

definition index_references ::
  "Crawler \<Rightarrow> string \<Rightarrow> string \<Rightarrow> string \<Rightarrow> trace
     \<Rightarrow> (Reference list option \<times> bool \<times> go_error option) \<times> trace" where
  "index_references c hash name parent_hash tr =
     (case id_GetReferences c tr hash of
        (references, item_type, err) \<Rightarrow>
          let tr1 = tr @ [EvGetReferences hash] in
          if err \<noteq> None then ((None, False, err), tr1)
          else
            let already_indexed = (if references = None then False else True) in
            (case update_references references name parent_hash of
               (references, references_updated) \<Rightarrow>
                 if already_indexed then
                   if references_updated then
                     let properties = [''references'' \<mapsto> PReferences (Some references)];
                         err = id_IndexItem c tr1 item_type hash properties;
                         tr2 = tr1 @ [EvIndexItem item_type hash properties]
                     in if err \<noteq> None then ((None, False, err), tr2)
                        else ((Some references, already_indexed, None), tr2)
                   else ((Some references, already_indexed, None), tr1)
                 else ((Some references, already_indexed, None), tr1)))"

section \<open>Crawling a hash\<close>

text \<open>
  The retry loop around \<^verbatim>\<open>FileList\<close>. It has no bound in the source, so the model
  counts iterations down from \<open>fuel\<close> and gives \<open>None\<close> when they run out.
\<close>

fun list_loop ::
  "Crawler \<Rightarrow> nat \<Rightarrow> string \<Rightarrow> string \<Rightarrow> trace
     \<Rightarrow> ((UnixLsObject option \<times> go_error option) outcome \<times> trace) option" where
  "list_loop c 0 hash url tr = None"
| "list_loop c (Suc fuel) hash url tr =
     (case sh_FileList c tr url of
        (list, err) \<Rightarrow>
          (case handleError c err hash (tr @ [EvFileList url]) of
             (Panicked p, tr1) \<Rightarrow> Some (Panicked p, tr1)
           | (Returned (try_again, err1), tr1) \<Rightarrow>
               if try_again
               then list_loop c fuel hash url (tr1 @ [EvSleep (RECONNECT_WAIT * Second)])
               else Some (Returned (list, err1), tr1)))"

text \<open>
  The loop over the links of a directory. \<open>Some e\<close> is \<^verbatim>\<open>return e\<close> from inside
  the loop, \<open>None\<close> is the loop running to its end. The variable \<open>err\<close> is the
  one of \<^verbatim>\<open>CrawlHash\<close>: the file branch assigns it, the directory branch calls
  \<^verbatim>\<open>c.hq.AddTask(args)\<close> without assigning its result and then tests \<open>err\<close>.
\<close>

fun queue_links ::
  "Crawler \<Rightarrow> string \<Rightarrow> go_error option \<Rightarrow> UnixLsLink list \<Rightarrow> trace
     \<Rightarrow> go_error option option \<times> trace" where
  "queue_links c hash err [] tr = (None, tr)"
| "queue_links c hash err (link # links) tr =
     (let args = \<lparr>args_Hash = link_Hash link, args_Name = link_Name link,
                  args_Size = link_Size link, args_ParentHash = hash,
                  args_ParentName = ''''\<rparr>
      in if link_Type link = ''File'' then
           (let err = fq_AddTask c tr args; tr1 = tr @ [EvAddTaskFiles args]
            in if err \<noteq> None then (Some err, tr1)
               else queue_links c hash err links tr1)
         else if link_Type link = ''Directory'' then
           (let tr1 = tr @ [EvAddTaskHashes args]
            in if err \<noteq> None then (Some err, tr1)
               else queue_links c hash err links tr1)
         else queue_links c hash err links tr)"

text \<open>The \<^verbatim>\<open>"Directory"\<close> case of \<^verbatim>\<open>CrawlHash\<close>, entered with \<open>err\<close> being \<^verbatim>\<open>nil\<close>.\<close>

definition crawl_directory ::
  "Crawler \<Rightarrow> string \<Rightarrow> string \<Rightarrow> Reference list option \<Rightarrow> UnixLsObject \<Rightarrow> trace
     \<Rightarrow> go_error option outcome \<times> trace" where
  "crawl_directory c hash parent_hash references list tr =
     (case queue_links c hash None (obj_Links list) tr of
        (Some err, tr1) \<Rightarrow> (Returned err, tr1)
      | (None, tr1) \<Rightarrow>
          let properties = [''links'' \<mapsto> PLinks (obj_Links list),
                            ''size'' \<mapsto> PUint64 (obj_Size list),
                            ''references'' \<mapsto> PReferences references]
          in if obj_Size list = PARTIAL_SIZE \<and> parent_hash = '''' then (Returned None, tr1)
             else
               let err = id_IndexItem c tr1 ''directory'' hash properties;
                   tr2 = tr1 @ [EvIndexItem ''directory'' hash properties]
               in if err \<noteq> None then (Returned err, tr2) else (Returned None, tr2))"

definition CrawlHash ::
  "Crawler \<Rightarrow> nat \<Rightarrow> string \<Rightarrow> string \<Rightarrow> string \<Rightarrow> string \<Rightarrow> trace
     \<Rightarrow> (go_error option outcome \<times> trace) option" where
  "CrawlHash c fuel hash name parent_hash parent_name tr =
     (case index_references c hash name parent_hash tr of
        ((references, already_indexed, err), tr1) \<Rightarrow>
          if err \<noteq> None then Some (Returned err, tr1)
          else if already_indexed then Some (Returned None, tr1)
          else
            (case list_loop c fuel hash (hashUrl hash) tr1 of
               None \<Rightarrow> None
             | Some (Panicked p, tr2) \<Rightarrow> Some (Panicked p, tr2)
             | Some (Returned (list, err), tr2) \<Rightarrow>
                 if err \<noteq> None then Some (Returned err, tr2)
                 else
                   (case list of
                      None \<Rightarrow> Some (Panicked PanicNilDereference, tr2)
                    | Some l \<Rightarrow>
                        if obj_Type l = ''File'' then
                          (let args = \<lparr>args_Hash = hash, args_Name = name,
                                       args_Size = obj_Size l, args_ParentHash = parent_hash,
                                       args_ParentName = ''''\<rparr>;
                               err = fq_AddTask c tr2 args;
                               tr3 = tr2 @ [EvAddTaskFiles args]
                           in if err \<noteq> None then Some (Returned err, tr3)
                              else Some (Returned None, tr3))
                        else if obj_Type l = ''Directory'' then
                          Some (crawl_directory c hash parent_hash references l tr2)
                        else Some (Returned None, tr2))))"

section \<open>Crawling a file\<close>

definition ipfs_tika_url :: string where
  "ipfs_tika_url = ''http://localhost:8081''"

definition getMetadata ::
  "Net \<Rightarrow> string \<Rightarrow> properties \<Rightarrow> trace \<Rightarrow> (properties \<times> go_error option) \<times> trace" where
  "getMetadata net path metadata tr =
     (let url = ipfs_tika_url @ path; tr1 = tr @ [EvHttpGet url]
      in case http_Get net tr url of
           Inl err \<Rightarrow> ((metadata, Some err), tr1)
         | Inr resp \<Rightarrow>
             if resp_StatusCode resp \<noteq> 200
             then ((metadata,
                    Some (OtherError (''Undesired status '' @ [CHR 0x27] @ resp_Status resp
                                        @ [CHR 0x27] @ '' from ipfs-tika.''))), tr1)
             else
               (case json_Decode net (resp_Body resp) metadata of
                  (metadata1, err) \<Rightarrow>
                    if err \<noteq> None then ((metadata1, err), tr1)
                    else ((metadata1, None), tr1)))"

text \<open>The retry loop around \<^verbatim>\<open>getMetadata\<close>, with fuel as for \<open>list_loop\<close>.\<close>

fun metadata_loop ::
  "Crawler \<Rightarrow> Net \<Rightarrow> nat \<Rightarrow> string \<Rightarrow> string \<Rightarrow> properties \<Rightarrow> trace
     \<Rightarrow> ((properties \<times> go_error option) outcome \<times> trace) option" where
  "metadata_loop c net 0 hash path metadata tr = None"
| "metadata_loop c net (Suc fuel) hash path metadata tr =
     (case getMetadata net path metadata tr of
        ((metadata1, err), tr1) \<Rightarrow>
          (case handleError c err hash tr1 of
             (Panicked p, tr2) \<Rightarrow> Some (Panicked p, tr2)
           | (Returned (try_again, err1), tr2) \<Rightarrow>
               if try_again
               then metadata_loop c net fuel hash path metadata1
                      (tr2 @ [EvSleep (RECONNECT_WAIT * Second)])
               else Some (Returned (metadata1, err1), tr2)))"

text \<open>The end of \<^verbatim>\<open>CrawlFile\<close>: add size and references, write the record.\<close>

definition index_file ::
  "Crawler \<Rightarrow> string \<Rightarrow> uint64 \<Rightarrow> Reference list option \<Rightarrow> properties \<Rightarrow> trace
     \<Rightarrow> go_error option outcome \<times> trace" where
  "index_file c hash sz references metadata tr =
     (let metadata = metadata(''size'' \<mapsto> PUint64 sz);
          metadata = metadata(''references'' \<mapsto> PReferences references);
          err = id_IndexItem c tr ''file'' hash metadata;
          tr1 = tr @ [EvIndexItem ''file'' hash metadata]
      in if err \<noteq> None then (Returned err, tr1) else (Returned None, tr1))"

definition CrawlFile ::
  "Crawler \<Rightarrow> Net \<Rightarrow> nat \<Rightarrow> string \<Rightarrow> string \<Rightarrow> string \<Rightarrow> string \<Rightarrow> uint64 \<Rightarrow> trace
     \<Rightarrow> (go_error option outcome \<times> trace) option" where
  "CrawlFile c net fuel hash name parent_hash parent_name sz tr =
     (if sz = PARTIAL_SIZE \<and> parent_hash = '''' then Some (Returned None, tr)
      else
        (case index_references c hash name parent_hash tr of
           ((references, already_indexed, err), tr1) \<Rightarrow>
             if err \<noteq> None then Some (Returned err, tr1)
             else if already_indexed then Some (Returned None, tr1)
             else
               let metadata = Map.empty in
               if sz > 0 then
                 if sz > METADATA_MAX_SIZE
                 then Some (Returned (Some (OtherError
                        (hash @ '' ('' @ name @ '') too large, not indexing (for now).''))), tr1)
                 else
                   let path = (if name \<noteq> '''' \<and> parent_hash \<noteq> ''''
                               then ''/ipfs/'' @ parent_hash @ ''/'' @ name
                               else ''/ipfs/'' @ hash)
                   in (case metadata_loop c net fuel hash path metadata tr1 of
                         None \<Rightarrow> None
                       | Some (Panicked p, tr2) \<Rightarrow> Some (Panicked p, tr2)
                       | Some (Returned (metadata1, err), tr2) \<Rightarrow>
                           if err \<noteq> None then Some (Returned err, tr2)
                           else Some (index_file c hash sz references metadata1 tr2))
               else Some (index_file c hash sz references metadata tr1)))"

section \<open>The extraction client\<close>

text \<open>
  The parts of an \<^verbatim>\<open>Extractor\<close> that \<^verbatim>\<open>retryingGet\<close> uses: the configured wait,
  whether \<^verbatim>\<open>http.NewRequestWithContext\<close> accepts the URL, and the HTTP client.
\<close>

record Extractor =
  config_RetryWait :: nat
  NewRequest :: "string \<Rightarrow> go_error option"
  client_Do :: "trace \<Rightarrow> string \<Rightarrow> go_error + http_response"

text \<open>
  Modelled from the spec: \<^verbatim>\<open>shouldRetry\<close>, which \<^verbatim>\<open>retryingGet\<close> calls and whose
  source is not among the files. The design applies the classification above to every
  error of the call and retries exactly the retryable ones.
\<close>

definition shouldRetry :: "go_error \<Rightarrow> bool" where
  "shouldRetry err = (spec_classify err = Retryable)"

text \<open>
  \<^verbatim>\<open>retryingGet\<close>, with fuel for its endless \<^verbatim>\<open>for\<close>. The counter \<open>retries\<close>
  only feeds the log line.
\<close>

fun retryingGet ::
  "Extractor \<Rightarrow> nat \<Rightarrow> string \<Rightarrow> nat \<Rightarrow> trace
     \<Rightarrow> ((go_error + http_response) outcome \<times> trace) option" where
  "retryingGet e 0 url retries tr = None"
| "retryingGet e (Suc fuel) url retries tr =
     (case NewRequest e url of
        Some err \<Rightarrow> Some (Panicked (PanicCreatingRequest err), tr)
      | None \<Rightarrow>
          (case client_Do e tr url of
             Inr resp \<Rightarrow> Some (Returned (Inr resp), tr @ [EvHttpGet url])
           | Inl err \<Rightarrow>
               if \<not> shouldRetry err then Some (Returned (Inl err), tr @ [EvHttpGet url])
               else retryingGet e fuel url (retries + 1)
                      (tr @ [EvHttpGet url, EvSleep (config_RetryWait e)])))"

section \<open>The connection monitor\<close>

definition maxReconnect :: int where
  "maxReconnect = 100"

text \<open>
  The state of \<^verbatim>\<open>monitorConn\<close>: its counter \<open>errCnt\<close> and the connection it last
  stored in \<^verbatim>\<open>c.conn\<close>. What it waits for: the context being done, a blocked or
  unblocked notification, or a close notification, which carries the two values that the
  \<^verbatim>\<open>amqp.Dial\<close> after it returns: a connection, which may be \<^verbatim>\<open>nil\<close>, and an
  error, which may be \<^verbatim>\<open>nil\<close>. The connection is stored whatever the error is.
\<close>

record monitor_state =
  errCnt :: int
  conn :: "nat option"

datatype monitor_event =
    CtxDone
  | Blocked bool
  | Closed "nat option" "go_error option"

datatype monitor_result =
    Waiting monitor_state
  | Stopped
  | MonitorPanic string

definition monitor_step :: "monitor_state \<Rightarrow> monitor_event \<Rightarrow> monitor_result" where
  "monitor_step s ev =
     (case ev of
        CtxDone \<Rightarrow> Stopped
      | Blocked active \<Rightarrow> Waiting s
      | Closed amqpConn amqpErr \<Rightarrow>
          if amqpErr \<noteq> None then
            if errCnt s > maxReconnect then MonitorPanic ''Repeated AMQP reconnect errors''
            else Waiting (s\<lparr>errCnt := errCnt s + 1, conn := amqpConn\<rparr>)
          else Waiting (s\<lparr>conn := amqpConn\<rparr>))"

fun monitorConn :: "monitor_state \<Rightarrow> monitor_event list \<Rightarrow> monitor_result" where
  "monitorConn s [] = Waiting s"
| "monitorConn s (ev # evs) =
     (case monitor_step s ev of
        Waiting s1 \<Rightarrow> monitorConn s1 evs
      | Stopped \<Rightarrow> Stopped
      | MonitorPanic m \<Rightarrow> MonitorPanic m)"

section \<open>Observations and test collaborators\<close>

text \<open>
  The index lookup reports an existing record by returning no error and a reference
  slice that is not \<^verbatim>\<open>nil\<close>; the record's type plays no part.
\<close>

definition lookup_found :: "Reference list option \<times> string \<times> go_error option \<Rightarrow> bool" where
  "lookup_found r = (case r of (references, item_type, err) \<Rightarrow> err = None \<and> references \<noteq> None)"

definition is_index_write :: "event \<Rightarrow> bool" where
  "is_index_write ev = (case ev of EvIndexItem t h p \<Rightarrow> True | _ \<Rightarrow> False)"

definition index_writes :: "trace \<Rightarrow> trace" where
  "index_writes tr = filter is_index_write tr"

definition is_publish :: "event \<Rightarrow> bool" where
  "is_publish ev = (case ev of EvAddTaskFiles a \<Rightarrow> True | EvAddTaskHashes a \<Rightarrow> True | _ \<Rightarrow> False)"

definition publishes :: "trace \<Rightarrow> trace" where
  "publishes tr = filter is_publish tr"

definition is_sleep :: "event \<Rightarrow> bool" where
  "is_sleep ev = (case ev of EvSleep d \<Rightarrow> True | _ \<Rightarrow> False)"

definition sleeps :: "trace \<Rightarrow> nat" where
  "sleeps tr = length (filter is_sleep tr)"

text \<open>
  The events after \<open>k\<close> failed attempts of a retried call, each followed by a sleep
  of \<open>wait\<close>.
\<close>

definition retry_trace :: "event \<Rightarrow> nat \<Rightarrow> nat \<Rightarrow> trace \<Rightarrow> trace" where
  "retry_trace call wait k tr = tr @ concat (replicate k [call, EvSleep wait])"

text \<open>Collaborators that give the same answers whatever happened before.\<close>

definition constant_crawler ::
  "UnixLsObject option \<times> go_error option \<Rightarrow> Reference list option \<times> string \<times> go_error option
     \<Rightarrow> go_error option \<Rightarrow> go_error option \<Rightarrow> go_error option \<Rightarrow> Crawler" where
  "constant_crawler listing lookup index_err fq_err hq_err =
     \<lparr>sh_FileList = (\<lambda>tr url. listing),
      id_GetReferences = (\<lambda>tr hash. lookup),
      id_IndexItem = (\<lambda>tr t hash p. index_err),
      fq_AddTask = (\<lambda>tr args. fq_err),
      hq_AddTask = (\<lambda>tr args. hq_err)\<rparr>"

text \<open>
  Collaborators whose retried call fails with \<open>err\<close> until \<open>n\<close> sleeps have
  passed, and succeeds from then on.
\<close>

definition flaky_crawler :: "nat \<Rightarrow> go_error \<Rightarrow> UnixLsObject \<Rightarrow> Crawler" where
  "flaky_crawler n err obj =
     \<lparr>sh_FileList = (\<lambda>tr url. if sleeps tr < n then (None, Some err) else (Some obj, None)),
      id_GetReferences = (\<lambda>tr hash. (None, '''', None)),
      id_IndexItem = (\<lambda>tr t hash p. None),
      fq_AddTask = (\<lambda>tr args. None),
      hq_AddTask = (\<lambda>tr args. None)\<rparr>"

definition flaky_net :: "nat \<Rightarrow> go_error \<Rightarrow> http_response \<Rightarrow> Net" where
  "flaky_net n err resp =
     \<lparr>http_Get = (\<lambda>tr url. if sleeps tr < n then Inl err else Inr resp),
      json_Decode = (\<lambda>body metadata. (metadata(''body'' \<mapsto> PJson body), None))\<rparr>"

definition flaky_extractor :: "nat \<Rightarrow> go_error \<Rightarrow> http_response \<Rightarrow> Extractor" where
  "flaky_extractor n err resp =
     \<lparr>config_RetryWait = 2 * Second,
      NewRequest = (\<lambda>url. None),
      client_Do = (\<lambda>tr url. if sleeps tr < n then Inl err else Inr resp)\<rparr>"

definition connection_refused :: go_error where
  "connection_refused = UrlError False False (Errno ECONNREFUSED)"

text \<open>Objects, responses and errors for the examples.\<close>

definition example_directory :: "uint64 \<Rightarrow> string \<Rightarrow> UnixLsObject" where
  "example_directory sz child_type =
     \<lparr>obj_Hash = ''QmDir'', obj_Size = sz, obj_Type = ''Directory'',
      obj_Links = [\<lparr>link_Hash = ''QmChild'', link_Name = ''child'', link_Size = 10,
                    link_Type = child_type\<rparr>]\<rparr>"

definition two_children :: "uint64 \<Rightarrow> UnixLsObject" where
  "two_children sz =
     \<lparr>obj_Hash = ''QmDir'', obj_Size = sz, obj_Type = ''Directory'',
      obj_Links = [\<lparr>link_Hash = ''QmSub'', link_Name = ''sub'', link_Size = 20,
                    link_Type = ''Directory''\<rparr>,
                   \<lparr>link_Hash = ''QmChild'', link_Name = ''child'', link_Size = 10,
                    link_Type = ''File''\<rparr>]\<rparr>"

definition symlink_object :: UnixLsObject where
  "symlink_object = \<lparr>obj_Hash = ''QmLink'', obj_Size = 5, obj_Type = ''Symlink'', obj_Links = []\<rparr>"

definition ok_response :: http_response where
  "ok_response = \<lparr>resp_StatusCode = 200, resp_Status = ''200 OK'', resp_Body = ''{}''\<rparr>"

definition publish_failed :: go_error where
  "publish_failed = OtherError ''publish failed''"

definition index_unavailable :: go_error where
  "index_unavailable = OtherError ''index unavailable''"

section \<open>Facts about the reference list\<close>

lemma has_parent_iff: "has_parent rs p \<longleftrightarrow> p \<in> set (map ref_ParentHash rs)"
  by (induction rs) auto

lemma has_parent_append:
  "has_parent (rs @ [\<lparr>ref_Name = n, ref_ParentHash = p\<rparr>]) p"
  by (simp add: has_parent_iff)

text \<open>
  C1. Applying \<^verbatim>\<open>update_references\<close> a second time, with the same name and parent hash,
  to the list that the first application returned gives that list back with the flag
  false. This holds for every parent hash (the empty one included) and every starting
  slice (\<^verbatim>\<open>nil\<close> included). A list with at most one reference per parent hash keeps
  that property, so a reference list never gains a second entry for a parent.
\<close>

theorem update_references_idempotent:
  "update_references (Some (fst (update_references refs name parent_hash))) name parent_hash
     = (fst (update_references refs name parent_hash), False)
   \<and> (distinct (map ref_ParentHash (case refs of None \<Rightarrow> [] | Some rs \<Rightarrow> rs))
        \<longrightarrow> distinct (map ref_ParentHash (fst (update_references refs name parent_hash))))"
  by (auto simp: update_references_def Let_def has_parent_append has_parent_iff
           split: option.splits)

theorem update_references_idempotent_witness:
  "update_references (Some (fst (update_references
       (Some [\<lparr>ref_Name = ''a'', ref_ParentHash = ''Qm1''\<rparr>]) ''b'' ''Qm2''))) ''b'' ''Qm2''
     = ([\<lparr>ref_Name = ''a'', ref_ParentHash = ''Qm1''\<rparr>,
         \<lparr>ref_Name = ''b'', ref_ParentHash = ''Qm2''\<rparr>], False)
   \<and> distinct (map ref_ParentHash [\<lparr>ref_Name = ''a'', ref_ParentHash = ''Qm1''\<rparr>])
   \<and> distinct (map ref_ParentHash (fst (update_references
       (Some [\<lparr>ref_Name = ''a'', ref_ParentHash = ''Qm1''\<rparr>]) ''b'' ''Qm2'')))"
  using update_references_idempotent
    [of "Some [\<lparr>ref_Name = ''a'', ref_ParentHash = ''Qm1''\<rparr>]" "''b''" "''Qm2''"]
  by (simp add: update_references_def)

section \<open>Facts about the error classification\<close>

lemma handleError_retryable:
  "spec_classify e = Retryable \<Longrightarrow> handleError c (Some e) hash tr = (Returned (True, None), tr)"
  by (cases e)
     (auto simp: handleError_def spec_classify_def is_protocol_error_def is_timeout_def
                 is_temporary_network_def
           split: net_error.splits if_splits)

lemma handleError_nonretryable:
  "spec_classify e = NonRetryable \<Longrightarrow> handleError c (Some e) hash tr = (Returned (False, Some e), tr)"
  by (cases e)
     (auto simp: handleError_def spec_classify_def is_protocol_error_def is_timeout_def
                 is_temporary_network_def
           split: net_error.splits if_splits)

lemma handleError_fatal:
  "spec_classify e = Fatal \<Longrightarrow> handleError c (Some e) hash tr =
     (Panicked (PanicError e),
      tr @ [EvIndexItem ''invalid'' hash [''error'' \<mapsto> PString (shell_error_text e)]])"
  by (cases e)
     (auto simp: handleError_def spec_classify_def is_protocol_error_def is_timeout_def
                 is_temporary_network_def shell_error_text_def
           split: net_error.splits if_splits)

lemma handleError_nil: "handleError c None hash tr = (Returned (False, None), tr)"
  by (simp add: handleError_def)

text \<open>
  C4. \<^verbatim>\<open>handleError\<close> puts every error into exactly one class, and what it does is
  fixed by the class alone, whatever happened before and whatever the collaborators
  answer: a fatal (protocol) error makes it ask the indexer for an \<^verbatim>\<open>invalid\<close> record
  carrying the error's text and then panic with the error; a non-retryable error
  (a timeout, or any error of no other class) comes back as \<^verbatim>\<open>(false, err)\<close> with
  nothing done; a retryable error (temporary, dial, read, connection refused) comes back
  as \<^verbatim>\<open>(true, nil)\<close> with nothing done. The classes are those of \<open>spec_classify\<close>,
  tried in its order, so a URL error that is both a timeout and a dial failure is a
  timeout.
\<close>

theorem handleError_classifies:
  "handleError c (Some e) hash tr =
     (case spec_classify e of
        Fatal \<Rightarrow> (Panicked (PanicError e),
                   tr @ [EvIndexItem ''invalid'' hash [''error'' \<mapsto> PString (shell_error_text e)]])
      | NonRetryable \<Rightarrow> (Returned (False, Some e), tr)
      | Retryable \<Rightarrow> (Returned (True, None), tr))"
proof (cases e)
  case (ShellError msg)
  then show ?thesis
    by (simp add: handleError_def spec_classify_def is_protocol_error_def is_timeout_def
                  is_temporary_network_def shell_error_text_def)
next
  case (UrlError timeout temporary inner)
  then show ?thesis
    by (cases inner)
       (auto simp: handleError_def spec_classify_def is_protocol_error_def is_timeout_def
                   is_temporary_network_def)
next
  case (OtherError m)
  then show ?thesis
    by (simp add: handleError_def spec_classify_def is_protocol_error_def is_timeout_def
                  is_temporary_network_def)
qed

text \<open>
  One error of each kind: a protocol error, a dial failure that timed out, a refused
  connection, and an error of no special type.
\<close>

theorem handleError_classifies_witness:
  "handleError (constant_crawler (None, None) (None, '''', None) None None None)
     (Some (ShellError ''unexpected protobuf wire type'')) ''QmH'' []
     = (Panicked (PanicError (ShellError ''unexpected protobuf wire type'')),
        [EvIndexItem ''invalid'' ''QmH'' [''error'' \<mapsto> PString ''unexpected protobuf wire type'']])
   \<and> handleError (constant_crawler (None, None) (None, '''', None) None None None)
     (Some (UrlError True True (OpError ''dial''))) ''QmH'' []
     = (Returned (False, Some (UrlError True True (OpError ''dial''))), [])
   \<and> handleError (constant_crawler (None, None) (None, '''', None) None None None)
     (Some connection_refused) ''QmH'' []
     = (Returned (True, None), [])
   \<and> handleError (constant_crawler (None, None) (None, '''', None) None None None)
     (Some (OtherError ''unexpected EOF'')) ''QmH'' []
     = (Returned (False, Some (OtherError ''unexpected EOF'')), [])"
  using handleError_classifies
          [of "constant_crawler (None, None) (None, '''', None) None None None"
              "ShellError ''unexpected protobuf wire type''" "''QmH''" "[]"]
        handleError_classifies
          [of "constant_crawler (None, None) (None, '''', None) None None None"
              "UrlError True True (OpError ''dial'')" "''QmH''" "[]"]
        handleError_classifies
          [of "constant_crawler (None, None) (None, '''', None) None None None"
              "connection_refused" "''QmH''" "[]"]
        handleError_classifies
          [of "constant_crawler (None, None) (None, '''', None) None None None"
              "OtherError ''unexpected EOF''" "''QmH''" "[]"]
  by (simp add: spec_classify_def is_protocol_error_def is_timeout_def
                is_temporary_network_def shell_error_text_def connection_refused_def
                has_prefix_def)

section \<open>Traces of retried calls\<close>

lemma retry_trace_0: "retry_trace call w 0 tr = tr"
  by (simp add: retry_trace_def)

lemma retry_trace_Suc:
  "retry_trace call w (Suc k) tr = retry_trace call w k (tr @ [call, EvSleep w])"
  by (simp add: retry_trace_def)

lemma replicate_2: "replicate 2 x = [x, x]"
  by (simp add: numeral_2_eq_2)

lemma sleeps_retry_trace:
  "\<not> is_sleep call \<Longrightarrow> sleeps (retry_trace call w k tr) = sleeps tr + k"
  by (induction k arbitrary: tr)
     (simp_all add: retry_trace_0 retry_trace_Suc sleeps_def is_sleep_def)

lemma index_writes_append: "index_writes (xs @ ys) = index_writes xs @ index_writes ys"
  by (simp add: index_writes_def)

lemma publishes_append: "publishes (xs @ ys) = publishes xs @ publishes ys"
  by (simp add: publishes_def)

lemma index_writes_retry_trace:
  "\<not> is_index_write call \<Longrightarrow> index_writes (retry_trace call w k tr) = index_writes tr"
  by (induction k arbitrary: tr)
     (simp_all add: retry_trace_0 retry_trace_Suc index_writes_def is_index_write_def)

lemma publishes_retry_trace:
  "\<not> is_publish call \<Longrightarrow> publishes (retry_trace call w k tr) = publishes tr"
  by (induction k arbitrary: tr)
     (simp_all add: retry_trace_0 retry_trace_Suc publishes_def is_publish_def)

section \<open>The retry loops\<close>

lemma list_loop_skip:
  "(\<forall>i<k. \<exists>e. snd (sh_FileList c (retry_trace (EvFileList url) (RECONNECT_WAIT * Second) i tr) url) = Some e
            \<and> spec_classify e = Retryable) \<Longrightarrow>
   list_loop c (k + n) hash url tr
     = list_loop c n hash url (retry_trace (EvFileList url) (RECONNECT_WAIT * Second) k tr)"
proof (induction k arbitrary: tr)
  case 0
  then show ?case by (simp add: retry_trace_0)
next
  case (Suc k)
  from Suc.prems obtain e where
    e: "snd (sh_FileList c tr url) = Some e" "spec_classify e = Retryable"
    by (force simp: retry_trace_0)
  have shifted: "\<forall>i<k. \<exists>e. snd (sh_FileList c (retry_trace (EvFileList url) (RECONNECT_WAIT * Second) i
                    (tr @ [EvFileList url, EvSleep (RECONNECT_WAIT * Second)])) url) = Some e
            \<and> spec_classify e = Retryable"
    using Suc.prems by (auto simp: retry_trace_Suc [symmetric])
  have "list_loop c (Suc k + n) hash url tr
          = list_loop c (k + n) hash url (tr @ [EvFileList url, EvSleep (RECONNECT_WAIT * Second)])"
    using e by (cases "sh_FileList c tr url") (simp add: handleError_retryable)
  also have "\<dots> = list_loop c n hash url
       (retry_trace (EvFileList url) (RECONNECT_WAIT * Second) k
          (tr @ [EvFileList url, EvSleep (RECONNECT_WAIT * Second)]))"
    by (rule Suc.IH [OF shifted])
  finally show ?case by (simp add: retry_trace_Suc)
qed

lemma getMetadata_get_fails:
  "http_Get net tr (ipfs_tika_url @ path) = Inl err \<Longrightarrow>
   getMetadata net path metadata tr = ((metadata, Some err), tr @ [EvHttpGet (ipfs_tika_url @ path)])"
  by (simp add: getMetadata_def)

lemma getMetadata_trace:
  "snd (getMetadata net path metadata tr) = tr @ [EvHttpGet (ipfs_tika_url @ path)]"
  by (simp add: getMetadata_def Let_def split: sum.splits prod.splits)

lemma metadata_loop_skip:
  "(\<forall>i<k. \<exists>e. http_Get net (retry_trace (EvHttpGet (ipfs_tika_url @ path)) (RECONNECT_WAIT * Second) i tr)
                 (ipfs_tika_url @ path) = Inl e
            \<and> spec_classify e = Retryable) \<Longrightarrow>
   metadata_loop c net (k + n) hash path metadata tr
     = metadata_loop c net n hash path metadata
         (retry_trace (EvHttpGet (ipfs_tika_url @ path)) (RECONNECT_WAIT * Second) k tr)"
proof (induction k arbitrary: tr)
  case 0
  then show ?case by (simp add: retry_trace_0)
next
  case (Suc k)
  let ?call = "EvHttpGet (ipfs_tika_url @ path)"
  let ?w = "RECONNECT_WAIT * Second"
  from Suc.prems obtain e where
    e: "http_Get net tr (ipfs_tika_url @ path) = Inl e" "spec_classify e = Retryable"
    by (force simp: retry_trace_0)
  have shifted: "\<forall>i<k. \<exists>e. http_Get net (retry_trace ?call ?w i (tr @ [?call, EvSleep ?w]))
                    (ipfs_tika_url @ path) = Inl e \<and> spec_classify e = Retryable"
    using Suc.prems by (auto simp: retry_trace_Suc [symmetric])
  have "metadata_loop c net (Suc k + n) hash path metadata tr
          = metadata_loop c net (k + n) hash path metadata (tr @ [?call, EvSleep ?w])"
    using e by (simp add: getMetadata_get_fails handleError_retryable)
  also have "\<dots> = metadata_loop c net n hash path metadata
       (retry_trace ?call ?w k (tr @ [?call, EvSleep ?w]))"
    by (rule Suc.IH [OF shifted])
  finally show ?case by (simp add: retry_trace_Suc)
qed

lemma retryingGet_skip:
  "NewRequest e url = None \<Longrightarrow>
   (\<forall>i<k. \<exists>err. client_Do e (retry_trace (EvHttpGet url) (config_RetryWait e) i tr) url = Inl err
            \<and> spec_classify err = Retryable) \<Longrightarrow>
   retryingGet e (k + n) url retries tr
     = retryingGet e n url (retries + k) (retry_trace (EvHttpGet url) (config_RetryWait e) k tr)"
proof (induction k arbitrary: tr retries)
  case 0
  then show ?case by (simp add: retry_trace_0)
next
  case (Suc k)
  let ?call = "EvHttpGet url"
  let ?w = "config_RetryWait e"
  from Suc.prems obtain err where
    err: "client_Do e tr url = Inl err" "spec_classify err = Retryable"
    by (force simp: retry_trace_0)
  have shifted: "\<forall>i<k. \<exists>err. client_Do e (retry_trace ?call ?w i (tr @ [?call, EvSleep ?w])) url = Inl err
                    \<and> spec_classify err = Retryable"
    using Suc.prems by (auto simp: retry_trace_Suc [symmetric])
  have "retryingGet e (Suc k + n) url retries tr
          = retryingGet e (k + n) url (retries + 1) (tr @ [?call, EvSleep ?w])"
    using err Suc.prems(1) by (simp add: shouldRetry_def)
  also have "\<dots> = retryingGet e n url (retries + 1 + k)
       (retry_trace ?call ?w k (tr @ [?call, EvSleep ?w]))"
    by (rule Suc.IH [OF Suc.prems(1) shifted])
  finally show ?case by (simp add: retry_trace_Suc)
qed

lemma retryingGet_success:
  assumes nr: "NewRequest e url = None"
    and fails: "\<forall>i<k. \<exists>err. client_Do e (retry_trace (EvHttpGet url) (config_RetryWait e) i tr) url = Inl err
                  \<and> spec_classify err = Retryable"
    and fuel: "k < fuel"
    and ok: "client_Do e (retry_trace (EvHttpGet url) (config_RetryWait e) k tr) url = Inr resp"
  shows "retryingGet e fuel url retries tr
           = Some (Returned (Inr resp),
                   retry_trace (EvHttpGet url) (config_RetryWait e) k tr @ [EvHttpGet url])"
proof -
  from fuel obtain n where "fuel = Suc (k + n)"
    using less_imp_Suc_add by blast
  then have n: "fuel = k + Suc n" by simp
  have "retryingGet e fuel url retries tr
          = retryingGet e (Suc n) url (retries + k)
              (retry_trace (EvHttpGet url) (config_RetryWait e) k tr)"
    unfolding n by (rule retryingGet_skip [OF nr fails])
  also have "\<dots> = Some (Returned (Inr resp),
                   retry_trace (EvHttpGet url) (config_RetryWait e) k tr @ [EvHttpGet url])"
    using nr ok by simp
  finally show ?thesis .
qed

lemma retryingGet_failure:
  assumes nr: "NewRequest e url = None"
    and fails: "\<forall>i<k. \<exists>err. client_Do e (retry_trace (EvHttpGet url) (config_RetryWait e) i tr) url = Inl err
                  \<and> spec_classify err = Retryable"
    and fuel: "k < fuel"
    and bad: "client_Do e (retry_trace (EvHttpGet url) (config_RetryWait e) k tr) url = Inl err"
    and cls: "spec_classify err \<noteq> Retryable"
  shows "retryingGet e fuel url retries tr
           = Some (Returned (Inl err),
                   retry_trace (EvHttpGet url) (config_RetryWait e) k tr @ [EvHttpGet url])"
proof -
  from fuel obtain n where "fuel = Suc (k + n)"
    using less_imp_Suc_add by blast
  then have n: "fuel = k + Suc n" by simp
  have "retryingGet e fuel url retries tr
          = retryingGet e (Suc n) url (retries + k)
              (retry_trace (EvHttpGet url) (config_RetryWait e) k tr)"
    unfolding n by (rule retryingGet_skip [OF nr fails])
  also have "\<dots> = Some (Returned (Inl err),
                   retry_trace (EvHttpGet url) (config_RetryWait e) k tr @ [EvHttpGet url])"
    using nr bad cls by (simp add: shouldRetry_def)
  finally show ?thesis .
qed

lemma metadata_loop_after_retries:
  assumes fails: "\<forall>i<k. \<exists>err. http_Get net (retry_trace (EvHttpGet (ipfs_tika_url @ path))
                      (RECONNECT_WAIT * Second) i tr) (ipfs_tika_url @ path) = Inl err
                  \<and> spec_classify err = Retryable"
    and fuel: "k < fuel"
    and res: "fst (getMetadata net path metadata
                (retry_trace (EvHttpGet (ipfs_tika_url @ path)) (RECONNECT_WAIT * Second) k tr))
              = (md, err)"
  shows "metadata_loop c net fuel hash path metadata tr
           = (case handleError c err hash
                     (retry_trace (EvHttpGet (ipfs_tika_url @ path)) (RECONNECT_WAIT * Second) k tr
                        @ [EvHttpGet (ipfs_tika_url @ path)]) of
                (Panicked p, tr2) \<Rightarrow> Some (Panicked p, tr2)
              | (Returned (try_again, err1), tr2) \<Rightarrow>
                  if try_again
                  then metadata_loop c net (fuel - Suc k) hash path md
                         (tr2 @ [EvSleep (RECONNECT_WAIT * Second)])
                  else Some (Returned (md, err1), tr2))"
proof -
  let ?T = "retry_trace (EvHttpGet (ipfs_tika_url @ path)) (RECONNECT_WAIT * Second) k tr"
  from fuel obtain n where "fuel = Suc (k + n)"
    using less_imp_Suc_add by blast
  then have n: "fuel = k + Suc n" by simp
  from n have fk: "fuel - Suc k = n" by simp
  have g: "getMetadata net path metadata ?T = ((md, err), ?T @ [EvHttpGet (ipfs_tika_url @ path)])"
    using res getMetadata_trace [of net path metadata ?T]
    by (cases "getMetadata net path metadata ?T") simp
  have "metadata_loop c net fuel hash path metadata tr
          = metadata_loop c net (Suc n) hash path metadata ?T"
    unfolding n by (rule metadata_loop_skip [OF fails])
  also have "\<dots> = (case handleError c err hash (?T @ [EvHttpGet (ipfs_tika_url @ path)]) of
                (Panicked p, tr2) \<Rightarrow> Some (Panicked p, tr2)
              | (Returned (try_again, err1), tr2) \<Rightarrow>
                  if try_again
                  then metadata_loop c net n hash path md
                         (tr2 @ [EvSleep (RECONNECT_WAIT * Second)])
                  else Some (Returned (md, err1), tr2))"
    by (simp add: g)
  finally show ?thesis unfolding fk .
qed

text \<open>
  C5. Both retry loops, \<^verbatim>\<open>retryingGet\<close> of the extraction client and the loop around
  \<^verbatim>\<open>getMetadata\<close> in \<^verbatim>\<open>CrawlFile\<close>. Suppose the first \<open>k\<close> attempts fail with
  a retryable error (and, for \<^verbatim>\<open>retryingGet\<close>, the request can be built). Then with
  any fuel above \<open>k\<close> the loop terminates at attempt \<open>k + 1\<close>: if that attempt
  succeeds, the loop returns its result; if it fails with an error that is not
  retryable, the loop ends with that error (\<^verbatim>\<open>retryingGet\<close> returns it; the crawler's
  loop returns a non-retryable error and panics with a fatal one after asking for the
  \<^verbatim>\<open>invalid\<close> record). In every case the events are exactly \<open>k\<close> times a request
  followed by a sleep of the configured interval, and then one last request: with
  \<open>N = k + 1\<close>, exactly \<open>N\<close> attempts and a sleep between consecutive attempts.
\<close>

theorem retry_loops:
  "(NewRequest e url = None \<and> k < fuel
      \<and> (\<forall>i<k. \<exists>err. client_Do e (retry_trace (EvHttpGet url) (config_RetryWait e) i tr) url = Inl err
                   \<and> spec_classify err = Retryable)
    \<longrightarrow> (\<forall>resp. client_Do e (retry_trace (EvHttpGet url) (config_RetryWait e) k tr) url = Inr resp
            \<longrightarrow> retryingGet e fuel url retries tr
                  = Some (Returned (Inr resp),
                          retry_trace (EvHttpGet url) (config_RetryWait e) k tr @ [EvHttpGet url]))
       \<and> (\<forall>err. client_Do e (retry_trace (EvHttpGet url) (config_RetryWait e) k tr) url = Inl err
                  \<and> spec_classify err \<noteq> Retryable
            \<longrightarrow> retryingGet e fuel url retries tr
                  = Some (Returned (Inl err),
                          retry_trace (EvHttpGet url) (config_RetryWait e) k tr @ [EvHttpGet url])))
   \<and> (k < fuel
      \<and> (\<forall>i<k. \<exists>err. http_Get net (retry_trace (EvHttpGet (ipfs_tika_url @ path))
                          (RECONNECT_WAIT * Second) i tr) (ipfs_tika_url @ path) = Inl err
                   \<and> spec_classify err = Retryable)
    \<longrightarrow> (\<forall>md. fst (getMetadata net path metadata
                     (retry_trace (EvHttpGet (ipfs_tika_url @ path)) (RECONNECT_WAIT * Second) k tr))
                 = (md, None)
            \<longrightarrow> metadata_loop c net fuel hash path metadata tr
                  = Some (Returned (md, None),
                          retry_trace (EvHttpGet (ipfs_tika_url @ path)) (RECONNECT_WAIT * Second) k tr
                            @ [EvHttpGet (ipfs_tika_url @ path)]))
       \<and> (\<forall>md err. fst (getMetadata net path metadata
                     (retry_trace (EvHttpGet (ipfs_tika_url @ path)) (RECONNECT_WAIT * Second) k tr))
                 = (md, Some err) \<and> spec_classify err = NonRetryable
            \<longrightarrow> metadata_loop c net fuel hash path metadata tr
                  = Some (Returned (md, Some err),
                          retry_trace (EvHttpGet (ipfs_tika_url @ path)) (RECONNECT_WAIT * Second) k tr
                            @ [EvHttpGet (ipfs_tika_url @ path)]))
       \<and> (\<forall>md err. fst (getMetadata net path metadata
                     (retry_trace (EvHttpGet (ipfs_tika_url @ path)) (RECONNECT_WAIT * Second) k tr))
                 = (md, Some err) \<and> spec_classify err = Fatal
            \<longrightarrow> metadata_loop c net fuel hash path metadata tr
                  = Some (Panicked (PanicError err),
                          retry_trace (EvHttpGet (ipfs_tika_url @ path)) (RECONNECT_WAIT * Second) k tr
                            @ [EvHttpGet (ipfs_tika_url @ path),
                               EvIndexItem ''invalid'' hash
                                 [''error'' \<mapsto> PString (shell_error_text err)]])))"
proof (intro conjI impI allI)
  fix resp
  assume "NewRequest e url = None \<and> k < fuel
      \<and> (\<forall>i<k. \<exists>err. client_Do e (retry_trace (EvHttpGet url) (config_RetryWait e) i tr) url = Inl err
                   \<and> spec_classify err = Retryable)"
    and "client_Do e (retry_trace (EvHttpGet url) (config_RetryWait e) k tr) url = Inr resp"
  then show "retryingGet e fuel url retries tr
                  = Some (Returned (Inr resp),
                          retry_trace (EvHttpGet url) (config_RetryWait e) k tr @ [EvHttpGet url])"
    using retryingGet_success [of e url k tr fuel resp retries] by blast
next
  fix err
  assume "NewRequest e url = None \<and> k < fuel
      \<and> (\<forall>i<k. \<exists>err. client_Do e (retry_trace (EvHttpGet url) (config_RetryWait e) i tr) url = Inl err
                   \<and> spec_classify err = Retryable)"
    and "client_Do e (retry_trace (EvHttpGet url) (config_RetryWait e) k tr) url = Inl err
                  \<and> spec_classify err \<noteq> Retryable"
  then show "retryingGet e fuel url retries tr
                  = Some (Returned (Inl err),
                          retry_trace (EvHttpGet url) (config_RetryWait e) k tr @ [EvHttpGet url])"
    using retryingGet_failure [of e url k tr fuel err retries] by blast
next
  fix md
  let ?T = "retry_trace (EvHttpGet (ipfs_tika_url @ path)) (RECONNECT_WAIT * Second) k tr"
  assume h: "k < fuel
      \<and> (\<forall>i<k. \<exists>err. http_Get net (retry_trace (EvHttpGet (ipfs_tika_url @ path))
                          (RECONNECT_WAIT * Second) i tr) (ipfs_tika_url @ path) = Inl err
                   \<and> spec_classify err = Retryable)"
    and r: "fst (getMetadata net path metadata ?T) = (md, None)"
  from h have f: "\<forall>i<k. \<exists>err. http_Get net (retry_trace (EvHttpGet (ipfs_tika_url @ path))
                          (RECONNECT_WAIT * Second) i tr) (ipfs_tika_url @ path) = Inl err
                   \<and> spec_classify err = Retryable" and l: "k < fuel"
    by simp_all
  show "metadata_loop c net fuel hash path metadata tr
          = Some (Returned (md, None), ?T @ [EvHttpGet (ipfs_tika_url @ path)])"
    by (simp add: metadata_loop_after_retries [OF f l r] handleError_nil)
next
  fix md err
  let ?T = "retry_trace (EvHttpGet (ipfs_tika_url @ path)) (RECONNECT_WAIT * Second) k tr"
  assume h: "k < fuel
      \<and> (\<forall>i<k. \<exists>err. http_Get net (retry_trace (EvHttpGet (ipfs_tika_url @ path))
                          (RECONNECT_WAIT * Second) i tr) (ipfs_tika_url @ path) = Inl err
                   \<and> spec_classify err = Retryable)"
    and r: "fst (getMetadata net path metadata ?T) = (md, Some err) \<and> spec_classify err = NonRetryable"
  from h have f: "\<forall>i<k. \<exists>err. http_Get net (retry_trace (EvHttpGet (ipfs_tika_url @ path))
                          (RECONNECT_WAIT * Second) i tr) (ipfs_tika_url @ path) = Inl err
                   \<and> spec_classify err = Retryable" and l: "k < fuel"
    by simp_all
  from r have r1: "fst (getMetadata net path metadata ?T) = (md, Some err)"
    and r2: "spec_classify err = NonRetryable" by simp_all
  show "metadata_loop c net fuel hash path metadata tr
          = Some (Returned (md, Some err), ?T @ [EvHttpGet (ipfs_tika_url @ path)])"
    by (simp add: metadata_loop_after_retries [OF f l r1] handleError_nonretryable [OF r2])
next
  fix md err
  let ?T = "retry_trace (EvHttpGet (ipfs_tika_url @ path)) (RECONNECT_WAIT * Second) k tr"
  assume h: "k < fuel
      \<and> (\<forall>i<k. \<exists>err. http_Get net (retry_trace (EvHttpGet (ipfs_tika_url @ path))
                          (RECONNECT_WAIT * Second) i tr) (ipfs_tika_url @ path) = Inl err
                   \<and> spec_classify err = Retryable)"
    and r: "fst (getMetadata net path metadata ?T) = (md, Some err) \<and> spec_classify err = Fatal"
  from h have f: "\<forall>i<k. \<exists>err. http_Get net (retry_trace (EvHttpGet (ipfs_tika_url @ path))
                          (RECONNECT_WAIT * Second) i tr) (ipfs_tika_url @ path) = Inl err
                   \<and> spec_classify err = Retryable" and l: "k < fuel"
    by simp_all
  from r have r1: "fst (getMetadata net path metadata ?T) = (md, Some err)"
    and r2: "spec_classify err = Fatal" by simp_all
  show "metadata_loop c net fuel hash path metadata tr
          = Some (Panicked (PanicError err),
                  ?T @ [EvHttpGet (ipfs_tika_url @ path),
                        EvIndexItem ''invalid'' hash [''error'' \<mapsto> PString (shell_error_text err)]])"
    by (simp add: metadata_loop_after_retries [OF f l r1] handleError_fatal [OF r2])
qed

theorem retry_loops_witness:
  "retryingGet (flaky_extractor 2 connection_refused ok_response) 3 ''http://tika/ipfs/QmF'' 0 []
     = Some (Returned (Inr ok_response),
             [EvHttpGet ''http://tika/ipfs/QmF'', EvSleep 2000000000,
              EvHttpGet ''http://tika/ipfs/QmF'', EvSleep 2000000000,
              EvHttpGet ''http://tika/ipfs/QmF''])
   \<and> metadata_loop (constant_crawler (None, None) (None, '''', None) None None None)
        (flaky_net 2 connection_refused ok_response) 3 ''QmF'' ''/ipfs/QmF'' Map.empty []
     = Some (Returned ([''body'' \<mapsto> PJson ''{}''], None),
             [EvHttpGet ''http://localhost:8081/ipfs/QmF'', EvSleep 2000000000,
              EvHttpGet ''http://localhost:8081/ipfs/QmF'', EvSleep 2000000000,
              EvHttpGet ''http://localhost:8081/ipfs/QmF''])"
proof -
  let ?e = "flaky_extractor 2 connection_refused ok_response"
  let ?u = "''http://tika/ipfs/QmF''"
  let ?net = "flaky_net 2 connection_refused ok_response"
  let ?c = "constant_crawler (None, None) (None, '''', None) None None None"
  let ?p = "''/ipfs/QmF''"
  let ?T = "\<lambda>i. retry_trace (EvHttpGet ?u) (config_RetryWait ?e) i []"
  let ?M = "\<lambda>i. retry_trace (EvHttpGet (ipfs_tika_url @ ?p)) (RECONNECT_WAIT * Second) i []"
  note R = retry_loops [where e = ?e and url = ?u and k = 2 and fuel = 3 and tr = "[]"
                          and retries = 0 and net = ?net and path = ?p and metadata = Map.empty
                          and c = ?c and hash = "''QmF''"]
  have s0: "sleeps [] = 0"
    by (simp add: sleeps_def)
  have sT: "\<And>i. sleeps (?T i) = i"
    by (simp add: sleeps_retry_trace is_sleep_def s0)
  have sM: "\<And>i. sleeps (?M i) = i"
    by (simp add: sleeps_retry_trace is_sleep_def s0)
  have retryable: "spec_classify connection_refused = Retryable"
    by (simp add: spec_classify_def is_protocol_error_def is_timeout_def
                  is_temporary_network_def connection_refused_def)
  have l: "(2::nat) < 3" by simp
  have a1: "NewRequest ?e ?u = None"
    by (simp add: flaky_extractor_def)
  have a2: "\<forall>i<2. \<exists>err. client_Do ?e (?T i) ?u = Inl err \<and> spec_classify err = Retryable"
  proof (intro allI impI)
    fix i :: nat
    assume "i < 2"
    then have "client_Do ?e (?T i) ?u = Inl connection_refused"
      using sT [of i] by (simp add: flaky_extractor_def)
    with retryable
    show "\<exists>err. client_Do ?e (?T i) ?u = Inl err \<and> spec_classify err = Retryable"
      by simp
  qed
  have a3: "client_Do ?e (?T 2) ?u = Inr ok_response"
    using sT [of 2] by (simp add: flaky_extractor_def)
  have tT: "?T 2 @ [EvHttpGet ?u]
              = [EvHttpGet ?u, EvSleep 2000000000, EvHttpGet ?u, EvSleep 2000000000, EvHttpGet ?u]"
    by (simp add: retry_trace_def replicate_2 flaky_extractor_def Second_def)
  have r1: "retryingGet ?e 3 ?u 0 [] = Some (Returned (Inr ok_response), ?T 2 @ [EvHttpGet ?u])"
    by (rule R [THEN conjunct1, THEN mp, OF conjI [OF a1 conjI [OF l a2]],
                THEN conjunct1, THEN spec, THEN mp, OF a3])
  have b2: "\<forall>i<2. \<exists>err. http_Get ?net (?M i) (ipfs_tika_url @ ?p) = Inl err
              \<and> spec_classify err = Retryable"
  proof (intro allI impI)
    fix i :: nat
    assume "i < 2"
    then have "http_Get ?net (?M i) (ipfs_tika_url @ ?p) = Inl connection_refused"
      using sM [of i] by (simp add: flaky_net_def)
    with retryable
    show "\<exists>err. http_Get ?net (?M i) (ipfs_tika_url @ ?p) = Inl err \<and> spec_classify err = Retryable"
      by simp
  qed
  have b3: "fst (getMetadata ?net ?p Map.empty (?M 2)) = ([''body'' \<mapsto> PJson ''{}''], None)"
    using sM [of 2] by (simp add: getMetadata_def flaky_net_def ok_response_def)
  have tM: "?M 2 @ [EvHttpGet (ipfs_tika_url @ ?p)]
              = [EvHttpGet ''http://localhost:8081/ipfs/QmF'', EvSleep 2000000000,
                 EvHttpGet ''http://localhost:8081/ipfs/QmF'', EvSleep 2000000000,
                 EvHttpGet ''http://localhost:8081/ipfs/QmF'']"
    by (simp add: retry_trace_def replicate_2 ipfs_tika_url_def RECONNECT_WAIT_def Second_def)
  have r2: "metadata_loop ?c ?net 3 ''QmF'' ?p Map.empty []
              = Some (Returned ([''body'' \<mapsto> PJson ''{}''], None),
                      ?M 2 @ [EvHttpGet (ipfs_tika_url @ ?p)])"
    by (rule R [THEN conjunct2, THEN mp, OF conjI [OF l b2],
                THEN conjunct1, THEN spec, THEN mp, OF b3])
  from r1 r2 show ?thesis by (simp only: tT tM)
qed

section \<open>Deduplication against the index\<close>

lemma index_references_new:
  "id_GetReferences c tr hash = (None, item_type, None) \<Longrightarrow>
   index_references c hash name parent_hash tr
     = ((Some (fst (update_references None name parent_hash)), False, None),
        tr @ [EvGetReferences hash])"
  by (simp add: index_references_def Let_def split: prod.splits)

lemma index_references_lookup_error:
  "id_GetReferences c tr hash = (references, item_type, Some e) \<Longrightarrow>
   index_references c hash name parent_hash tr = ((None, False, Some e), tr @ [EvGetReferences hash])"
  by (simp add: index_references_def Let_def)

text \<open>
  C6. The flag \<open>already_indexed\<close> that \<^verbatim>\<open>index_references\<close> returns is true exactly
  when the lookup found a record (it returned no error and a reference slice that is not
  \<^verbatim>\<open>nil\<close>, whatever the record's type) and \<^verbatim>\<open>index_references\<close> itself returns no
  error. When the update of the record's references fails, the function returns
  \<^verbatim>\<open>(nil, false, err)\<close>, so the flag is false although the record was found.
\<close>

theorem index_references_flag:
  "(case index_references c hash name parent_hash tr of
      ((references, already_indexed, err), tr1) \<Rightarrow>
        already_indexed = (lookup_found (id_GetReferences c tr hash) \<and> err = None))"
  by (auto simp: index_references_def lookup_found_def Let_def split: prod.splits)

theorem index_references_flag_witness:
  "lookup_found (id_GetReferences
      (constant_crawler (None, None) (Some [], ''file'', None) None None None) [] ''QmH'')
   \<and> fst (index_references
      (constant_crawler (None, None) (Some [], ''file'', None) None None None)
      ''QmH'' ''readme'' ''QmParent'' [])
     = (Some [\<lparr>ref_Name = ''readme'', ref_ParentHash = ''QmParent''\<rparr>], True, None)"
  using index_references_flag
          [where c = "constant_crawler (None, None) (Some [], ''file'', None) None None None"
             and hash = "''QmH''" and name = "''readme''" and parent_hash = "''QmParent''"
             and tr = "[]"]
  by (simp add: index_references_def lookup_found_def constant_crawler_def update_references_def)

text \<open>
  A record is found, its new reference cannot be stored: the flag comes back false.
\<close>

theorem index_references_flag_counterexample:
  "lookup_found (id_GetReferences
      (constant_crawler (None, None) (Some [], ''file'', None) (Some index_unavailable) None None)
      [] ''QmH'')
   \<and> fst (index_references
      (constant_crawler (None, None) (Some [], ''file'', None) (Some index_unavailable) None None)
      ''QmH'' ''readme'' ''QmParent'' [])
     = (None, False, Some index_unavailable)"
  by (simp add: index_references_def lookup_found_def constant_crawler_def update_references_def)

section \<open>Expanding a directory\<close>

lemma queue_links_index_writes:
  "index_writes (snd (queue_links c hash err links tr)) = index_writes tr"
  by (induction links arbitrary: err tr)
     (simp_all add: Let_def index_writes_def is_index_write_def)

lemma queue_links_early_return:
  "fst (queue_links c hash None links tr) \<noteq> Some None"
  by (induction links arbitrary: tr) (simp_all add: Let_def)

lemma queue_links_file_queue_ok:
  "(\<forall>t a. fq_AddTask c t a = None) \<Longrightarrow> fst (queue_links c hash None links tr) = None"
  by (induction links arbitrary: tr) (simp_all add: Let_def)

lemma queue_links_ignores_hq:
  "queue_links (c\<lparr>hq_AddTask := f\<rparr>) hash err links tr = queue_links c hash err links tr"
  by (induction links arbitrary: err tr) (simp_all add: Let_def)

lemma queue_links_file_failure:
  "link_Type link = ''File'' \<Longrightarrow>
   fq_AddTask c tr \<lparr>args_Hash = link_Hash link, args_Name = link_Name link,
                    args_Size = link_Size link, args_ParentHash = hash,
                    args_ParentName = ''''\<rparr> = Some e \<Longrightarrow>
   queue_links c hash err (link # links) tr
     = (Some (Some e),
        tr @ [EvAddTaskFiles \<lparr>args_Hash = link_Hash link, args_Name = link_Name link,
                               args_Size = link_Size link, args_ParentHash = hash,
                               args_ParentName = ''''\<rparr>])"
  by (simp add: Let_def)

lemma queue_links_append:
  "queue_links c hash None (xs @ ys) tr =
     (case queue_links c hash None xs tr of
        (None, tr1) \<Rightarrow> queue_links c hash None ys tr1
      | (Some r, tr1) \<Rightarrow> (Some r, tr1))"
  by (induction xs arbitrary: tr) (simp_all add: Let_def)

text \<open>
  C2. A directory with one child that is itself a directory, on a crawler whose hash
  queue refuses every task. \<^verbatim>\<open>CrawlHash\<close> calls \<^verbatim>\<open>c.hq.AddTask(args)\<close> without
  keeping its result, tests the variable \<open>err\<close> that is still \<^verbatim>\<open>nil\<close>, goes on to
  write the directory's index record and returns \<^verbatim>\<open>nil\<close>. A failed publish to the
  file queue is returned at once (\<open>queue_links_file_failure\<close>); a failed publish to
  the hash queue never is (\<open>queue_links_ignores_hq\<close>).
\<close>

theorem directory_publish_failure_ignored:
  "hq_AddTask
     (constant_crawler (Some (example_directory 100 ''Directory''), None) (None, '''', None)
        None None (Some publish_failed))
     [EvGetReferences ''QmDir'', EvFileList ''/ipfs/QmDir'']
     \<lparr>args_Hash = ''QmChild'', args_Name = ''child'', args_Size = 10,
      args_ParentHash = ''QmDir'', args_ParentName = ''''\<rparr> = Some publish_failed
   \<and> CrawlHash
        (constant_crawler (Some (example_directory 100 ''Directory''), None) (None, '''', None)
           None None (Some publish_failed))
        1 ''QmDir'' ''dir'' ''QmParent'' '''' []
      = Some (Returned None,
              [EvGetReferences ''QmDir'', EvFileList ''/ipfs/QmDir'',
               EvAddTaskHashes \<lparr>args_Hash = ''QmChild'', args_Name = ''child'', args_Size = 10,
                                 args_ParentHash = ''QmDir'', args_ParentName = ''''\<rparr>,
               EvIndexItem ''directory'' ''QmDir''
                 [''links'' \<mapsto> PLinks (obj_Links (example_directory 100 ''Directory'')),
                  ''size'' \<mapsto> PUint64 100,
                  ''references'' \<mapsto> PReferences (Some [\<lparr>ref_Name = ''dir'', ref_ParentHash = ''QmParent''\<rparr>])]])"
  by (simp add: CrawlHash_def index_references_def update_references_def constant_crawler_def
                example_directory_def handleError_def hashUrl_def crawl_directory_def Let_def
                PARTIAL_SIZE_def)

text \<open>
  C3. With an empty parent hash and the size of one chunk, \<^verbatim>\<open>CrawlFile\<close> returns
  \<^verbatim>\<open>nil\<close> at once and touches no collaborator, and the directory branch of
  \<^verbatim>\<open>CrawlHash\<close> (where the size is the one of the listing) never asks the indexer to
  write, however the expansion of the children ends. When the file queue and the hash
  queue accept every task, the directory branch returns \<^verbatim>\<open>nil\<close>. When the hash
  queue accepts every task, the children \<open>pre\<close> have all been queued, and the file
  queue then refuses the next child, a file, with the error \<open>e\<close>, the directory
  branch returns \<open>e\<close> at once: the refused publish is the last thing it did, and the
  size is never looked at.
\<close>

theorem partial_skip:
  "CrawlFile c net fuel hash name '''' parent_name PARTIAL_SIZE tr = Some (Returned None, tr)
   \<and> (obj_Size list = PARTIAL_SIZE \<longrightarrow>
        index_writes (snd (crawl_directory c hash '''' references list tr)) = index_writes tr
      \<and> ((\<forall>t a. fq_AddTask c t a = None) \<and> (\<forall>t a. hq_AddTask c t a = None)
           \<longrightarrow> fst (crawl_directory c hash '''' references list tr) = Returned None)
      \<and> (\<forall>pre link post tr1 e.
            (\<forall>t a. hq_AddTask c t a = None)
            \<and> obj_Links list = pre @ link # post
            \<and> queue_links c hash None pre tr = (None, tr1)
            \<and> link_Type link = ''File''
            \<and> fq_AddTask c tr1 \<lparr>args_Hash = link_Hash link, args_Name = link_Name link,
                                 args_Size = link_Size link, args_ParentHash = hash,
                                 args_ParentName = ''''\<rparr> = Some e
           \<longrightarrow> crawl_directory c hash '''' references list tr
                 = (Returned (Some e),
                    tr1 @ [EvAddTaskFiles \<lparr>args_Hash = link_Hash link, args_Name = link_Name link,
                                            args_Size = link_Size link, args_ParentHash = hash,
                                            args_ParentName = ''''\<rparr>])))"
proof (intro conjI impI allI)
  show "CrawlFile c net fuel hash name '''' parent_name PARTIAL_SIZE tr = Some (Returned None, tr)"
    by (simp add: CrawlFile_def)
next
  assume sz: "obj_Size list = PARTIAL_SIZE"
  obtain r tr1 where q: "queue_links c hash None (obj_Links list) tr = (r, tr1)"
    by (cases "queue_links c hash None (obj_Links list) tr") auto
  have w: "index_writes tr1 = index_writes tr"
    using queue_links_index_writes [of c hash None "obj_Links list" tr] q by simp
  from q sz w show "index_writes (snd (crawl_directory c hash '''' references list tr)) = index_writes tr"
    by (cases r) (simp_all add: crawl_directory_def)
next
  assume sz: "obj_Size list = PARTIAL_SIZE"
    and ok: "(\<forall>t a. fq_AddTask c t a = None) \<and> (\<forall>t a. hq_AddTask c t a = None)"
  obtain r tr1 where q: "queue_links c hash None (obj_Links list) tr = (r, tr1)"
    by (cases "queue_links c hash None (obj_Links list) tr") auto
  from ok have "r = None"
    using queue_links_file_queue_ok [of c hash "obj_Links list" tr] q by simp
  with q sz show "fst (crawl_directory c hash '''' references list tr) = Returned None"
    by (simp add: crawl_directory_def)
next
  fix pre post :: "UnixLsLink list" and link :: UnixLsLink and tr1 :: trace and e :: go_error
  let ?args = "\<lparr>args_Hash = link_Hash link, args_Name = link_Name link,
                 args_Size = link_Size link, args_ParentHash = hash,
                 args_ParentName = ''''\<rparr>"
  assume h: "(\<forall>t a. hq_AddTask c t a = None)
            \<and> obj_Links list = pre @ link # post
            \<and> queue_links c hash None pre tr = (None, tr1)
            \<and> link_Type link = ''File''
            \<and> fq_AddTask c tr1 ?args = Some e"
  then have links: "obj_Links list = pre @ link # post"
    and pre: "queue_links c hash None pre tr = (None, tr1)"
    and is_file: "link_Type link = ''File''"
    and refused: "fq_AddTask c tr1 ?args = Some e"
    by simp_all
  have "queue_links c hash None (pre @ link # post) tr = queue_links c hash None (link # post) tr1"
    by (simp only: queue_links_append pre) simp
  also have "\<dots> = (Some (Some e), tr1 @ [EvAddTaskFiles ?args])"
    using is_file refused by (rule queue_links_file_failure)
  finally have "queue_links c hash None (obj_Links list) tr
                  = (Some (Some e), tr1 @ [EvAddTaskFiles ?args])"
    by (simp only: links)
  then show "crawl_directory c hash '''' references list tr
               = (Returned (Some e), tr1 @ [EvAddTaskFiles ?args])"
    by (simp add: crawl_directory_def)
qed

text \<open>
  Two directories of chunk size without parent. The first has a directory and a file
  as children and both queues accept every task: nothing is written to the index and the
  branch returns \<^verbatim>\<open>nil\<close>. The second has the same children and a file queue that
  refuses every task: the directory child is queued, the file child is refused, and the
  branch returns the queue's error.
\<close>

theorem partial_skip_witness:
  "CrawlFile (constant_crawler (None, None) (None, '''', None) None None None)
     (flaky_net 0 connection_refused ok_response)
     0 ''QmDir'' ''dir'' '''' '''' PARTIAL_SIZE [] = Some (Returned None, [])
   \<and> obj_Size (two_children PARTIAL_SIZE) = PARTIAL_SIZE
   \<and> (\<forall>t a. fq_AddTask (constant_crawler (None, None) (None, '''', None) None None None) t a = None)
   \<and> (\<forall>t a. hq_AddTask (constant_crawler (None, None) (None, '''', None) None None None) t a = None)
   \<and> crawl_directory (constant_crawler (None, None) (None, '''', None) None None None)
        ''QmDir'' '''' (Some []) (two_children PARTIAL_SIZE) []
      = (Returned None,
         [EvAddTaskHashes \<lparr>args_Hash = ''QmSub'', args_Name = ''sub'', args_Size = 20,
                            args_ParentHash = ''QmDir'', args_ParentName = ''''\<rparr>,
          EvAddTaskFiles \<lparr>args_Hash = ''QmChild'', args_Name = ''child'', args_Size = 10,
                           args_ParentHash = ''QmDir'', args_ParentName = ''''\<rparr>])
   \<and> (\<forall>t a. hq_AddTask (constant_crawler (None, None) (None, '''', None) None (Some publish_failed) None) t a = None)
   \<and> fq_AddTask (constant_crawler (None, None) (None, '''', None) None (Some publish_failed) None)
        [EvAddTaskHashes \<lparr>args_Hash = ''QmSub'', args_Name = ''sub'', args_Size = 20,
                            args_ParentHash = ''QmDir'', args_ParentName = ''''\<rparr>]
        \<lparr>args_Hash = ''QmChild'', args_Name = ''child'', args_Size = 10,
         args_ParentHash = ''QmDir'', args_ParentName = ''''\<rparr> = Some publish_failed
   \<and> crawl_directory (constant_crawler (None, None) (None, '''', None) None (Some publish_failed) None)
        ''QmDir'' '''' (Some []) (two_children PARTIAL_SIZE) []
      = (Returned (Some publish_failed),
         [EvAddTaskHashes \<lparr>args_Hash = ''QmSub'', args_Name = ''sub'', args_Size = 20,
                            args_ParentHash = ''QmDir'', args_ParentName = ''''\<rparr>,
          EvAddTaskFiles \<lparr>args_Hash = ''QmChild'', args_Name = ''child'', args_Size = 10,
                           args_ParentHash = ''QmDir'', args_ParentName = ''''\<rparr>])"
proof -
  let ?ok = "constant_crawler (None, None) (None, '''', None) None None None"
  let ?bad = "constant_crawler (None, None) (None, '''', None) None (Some publish_failed) None"
  let ?sub = "\<lparr>link_Hash = ''QmSub'', link_Name = ''sub'', link_Size = 20,
                link_Type = ''Directory''\<rparr>"
  let ?child = "\<lparr>link_Hash = ''QmChild'', link_Name = ''child'', link_Size = 10,
                  link_Type = ''File''\<rparr>"
  let ?a_sub = "\<lparr>args_Hash = ''QmSub'', args_Name = ''sub'', args_Size = 20,
                  args_ParentHash = ''QmDir'', args_ParentName = ''''\<rparr>"
  let ?a_child = "\<lparr>args_Hash = ''QmChild'', args_Name = ''child'', args_Size = 10,
                    args_ParentHash = ''QmDir'', args_ParentName = ''''\<rparr>"
  have sz: "obj_Size (two_children PARTIAL_SIZE) = PARTIAL_SIZE"
    by (simp add: two_children_def)
  have links: "obj_Links (two_children PARTIAL_SIZE) = [?sub] @ ?child # []"
    by (simp add: two_children_def)
  have fq_ok: "\<forall>t a. fq_AddTask ?ok t a = None" and hq_ok: "\<forall>t a. hq_AddTask ?ok t a = None"
    by (simp_all add: constant_crawler_def)
  have hq_bad: "\<forall>t a. hq_AddTask ?bad t a = None"
    by (simp add: constant_crawler_def)
  have pre: "queue_links ?bad ''QmDir'' None [?sub] [] = (None, [EvAddTaskHashes ?a_sub])"
    by simp
  have refused: "fq_AddTask ?bad [EvAddTaskHashes ?a_sub] ?a_child = Some publish_failed"
    by (simp add: constant_crawler_def)
  note ok = partial_skip [of ?ok "flaky_net 0 connection_refused ok_response" 0 "''QmDir''" "''dir''"
                             "''''" "[]" "two_children PARTIAL_SIZE" "Some []"]
  note bad = partial_skip [of ?bad "flaky_net 0 connection_refused ok_response" 0 "''QmDir''" "''dir''"
                              "''''" "[]" "two_children PARTIAL_SIZE" "Some []"]
  from ok have cf: "CrawlFile ?ok (flaky_net 0 connection_refused ok_response)
                        0 ''QmDir'' ''dir'' '''' '''' PARTIAL_SIZE [] = Some (Returned None, [])"
    by (rule conjunct1)
  from ok sz fq_ok hq_ok
  have "fst (crawl_directory ?ok ''QmDir'' '''' (Some []) (two_children PARTIAL_SIZE) []) = Returned None"
    by blast
  moreover have "snd (crawl_directory ?ok ''QmDir'' '''' (Some []) (two_children PARTIAL_SIZE) [])
                   = [EvAddTaskHashes ?a_sub, EvAddTaskFiles ?a_child]"
    by (simp add: crawl_directory_def two_children_def constant_crawler_def)
  ultimately have good: "crawl_directory ?ok ''QmDir'' '''' (Some []) (two_children PARTIAL_SIZE) []
                   = (Returned None, [EvAddTaskHashes ?a_sub, EvAddTaskFiles ?a_child])"
    by (simp add: prod_eq_iff)
  from bad sz
  have "\<forall>pre link post tr1 e.
          (\<forall>t a. hq_AddTask ?bad t a = None)
          \<and> obj_Links (two_children PARTIAL_SIZE) = pre @ link # post
          \<and> queue_links ?bad ''QmDir'' None pre [] = (None, tr1)
          \<and> link_Type link = ''File''
          \<and> fq_AddTask ?bad tr1 \<lparr>args_Hash = link_Hash link, args_Name = link_Name link,
                                   args_Size = link_Size link, args_ParentHash = ''QmDir'',
                                   args_ParentName = ''''\<rparr> = Some e
          \<longrightarrow> crawl_directory ?bad ''QmDir'' '''' (Some []) (two_children PARTIAL_SIZE) []
                = (Returned (Some e),
                   tr1 @ [EvAddTaskFiles \<lparr>args_Hash = link_Hash link, args_Name = link_Name link,
                                           args_Size = link_Size link, args_ParentHash = ''QmDir'',
                                           args_ParentName = ''''\<rparr>])"
    by blast
  from this [rule_format, of "[?sub]" ?child "[]" "[EvAddTaskHashes ?a_sub]" publish_failed]
       hq_bad links pre refused
  have failed: "crawl_directory ?bad ''QmDir'' '''' (Some []) (two_children PARTIAL_SIZE) []
                  = (Returned (Some publish_failed), [EvAddTaskHashes ?a_sub, EvAddTaskFiles ?a_child])"
    by simp
  from cf sz fq_ok hq_ok good hq_bad refused failed show ?thesis
    by (simp only: simp_thms)
qed

text \<open>
  A directory of chunk size without parent whose only child is a file that the file
  queue refuses: \<^verbatim>\<open>CrawlHash\<close> returns the queue's error.
\<close>

theorem partial_skip_counterexample:
  "obj_Size (example_directory PARTIAL_SIZE ''File'') = PARTIAL_SIZE
   \<and> CrawlHash
        (constant_crawler (Some (example_directory PARTIAL_SIZE ''File''), None) (None, '''', None)
           None (Some publish_failed) None)
        1 ''QmDir'' ''dir'' '''' '''' []
      = Some (Returned (Some publish_failed),
              [EvGetReferences ''QmDir'', EvFileList ''/ipfs/QmDir'',
               EvAddTaskFiles \<lparr>args_Hash = ''QmChild'', args_Name = ''child'', args_Size = 10,
                                args_ParentHash = ''QmDir'', args_ParentName = ''''\<rparr>])"
  by (simp add: CrawlHash_def index_references_def update_references_def constant_crawler_def
                example_directory_def handleError_def hashUrl_def crawl_directory_def Let_def)

section \<open>Files too large and empty files\<close>

lemma partial_below_max: "METADATA_MAX_SIZE < sz \<Longrightarrow> sz \<noteq> PARTIAL_SIZE \<and> 0 < sz"
  by (auto simp: METADATA_MAX_SIZE_def PARTIAL_SIZE_def word_greater_zero_iff)

text \<open>
  C7. Take a file larger than \<open>METADATA_MAX_SIZE\<close>. When the lookup does not report
  its hash as indexed (it fails, or it finds no record), \<^verbatim>\<open>CrawlFile\<close> returns an
  error and the lookup is the only thing it does: no index write, no request to the
  extraction service, for any fuel. When the lookup finds a record, the file is
  deduplicated before its size is looked at. If the parent hash is empty or the record
  has a reference from this parent, \<^verbatim>\<open>CrawlFile\<close> returns \<^verbatim>\<open>nil\<close> after the
  lookup. If not, it asks the indexer once to store the record's references with the new
  one appended, under the record's own type, and returns the indexer's answer: \<^verbatim>\<open>nil\<close>,
  or the error of the store.
\<close>

theorem CrawlFile_too_large:
  "METADATA_MAX_SIZE < sz \<Longrightarrow>
   (\<not> lookup_found (id_GetReferences c tr hash) \<longrightarrow>
      (\<exists>e. CrawlFile c net fuel hash name parent_hash parent_name sz tr
              = Some (Returned (Some e), tr @ [EvGetReferences hash])))
   \<and> (\<forall>refs item_type.
        id_GetReferences c tr hash = (Some refs, item_type, None) \<longrightarrow>
        CrawlFile c net fuel hash name parent_hash parent_name sz tr
          = (if parent_hash = '''' \<or> has_parent refs parent_hash
             then Some (Returned None, tr @ [EvGetReferences hash])
             else Some (Returned
                          (id_IndexItem c (tr @ [EvGetReferences hash]) item_type hash
                             [''references'' \<mapsto> PReferences
                                (Some (refs @ [\<lparr>ref_Name = name, ref_ParentHash = parent_hash\<rparr>]))]),
                        tr @ [EvGetReferences hash,
                              EvIndexItem item_type hash
                                [''references'' \<mapsto> PReferences
                                   (Some (refs @ [\<lparr>ref_Name = name, ref_ParentHash = parent_hash\<rparr>]))]])))"
proof (intro conjI impI allI)
  assume big: "METADATA_MAX_SIZE < sz" and nf: "\<not> lookup_found (id_GetReferences c tr hash)"
  obtain references item_type err where
    r: "id_GetReferences c tr hash = (references, item_type, err)"
    by (cases "id_GetReferences c tr hash") auto
  from big have sz: "sz \<noteq> PARTIAL_SIZE" "0 < sz" using partial_below_max by auto
  show "\<exists>e. CrawlFile c net fuel hash name parent_hash parent_name sz tr
              = Some (Returned (Some e), tr @ [EvGetReferences hash])"
  proof (cases err)
    case None
    with nf r have "references = None" by (simp add: lookup_found_def)
    with None r big sz show ?thesis
      by (simp add: CrawlFile_def index_references_new)
  next
    case (Some e)
    with r sz show ?thesis
      by (simp add: CrawlFile_def index_references_lookup_error)
  qed
next
  fix refs item_type
  assume big: "METADATA_MAX_SIZE < sz"
    and r: "id_GetReferences c tr hash = (Some refs, item_type, None)"
  from big have sz: "sz \<noteq> PARTIAL_SIZE" using partial_below_max by auto
  let ?props = "[''references'' \<mapsto> PReferences
                   (Some (refs @ [\<lparr>ref_Name = name, ref_ParentHash = parent_hash\<rparr>]))]"
  show "CrawlFile c net fuel hash name parent_hash parent_name sz tr
          = (if parent_hash = '''' \<or> has_parent refs parent_hash
             then Some (Returned None, tr @ [EvGetReferences hash])
             else Some (Returned (id_IndexItem c (tr @ [EvGetReferences hash]) item_type hash ?props),
                        tr @ [EvGetReferences hash, EvIndexItem item_type hash ?props]))"
  proof (cases "parent_hash = '''' \<or> has_parent refs parent_hash")
    case True
    then have u: "update_references (Some refs) name parent_hash = (refs, False)"
      by (auto simp: update_references_def)
    from True sz show ?thesis
      by (simp add: CrawlFile_def index_references_def r u)
  next
    case False
    then have u: "update_references (Some refs) name parent_hash
                    = (refs @ [\<lparr>ref_Name = name, ref_ParentHash = parent_hash\<rparr>], True)"
      by (auto simp: update_references_def)
    from False sz show ?thesis
      by (cases "id_IndexItem c (tr @ [EvGetReferences hash]) item_type hash ?props")
         (simp_all add: CrawlFile_def index_references_def r u Let_def)
  qed
qed

text \<open>
  Two files of 50 MiB and one byte, seen from the parent \<open>QmParent\<close>. The hash of
  the first is not in the index: \<^verbatim>\<open>CrawlFile\<close> returns an error after the lookup.
  The hash of the second is in the index, without references, and the index refuses the
  store of the new reference: \<^verbatim>\<open>CrawlFile\<close> returns the error of the store.
\<close>

theorem CrawlFile_too_large_witness:
  "METADATA_MAX_SIZE < (52428801 :: uint64)
   \<and> \<not> lookup_found (id_GetReferences
          (constant_crawler (None, None) (None, '''', None) None None None) [] ''QmBig'')
   \<and> (\<exists>e. CrawlFile (constant_crawler (None, None) (None, '''', None) None None None)
             (flaky_net 0 connection_refused ok_response)
             1 ''QmBig'' ''big.iso'' ''QmParent'' '''' 52428801 []
          = Some (Returned (Some e), [EvGetReferences ''QmBig'']))
   \<and> id_GetReferences
        (constant_crawler (None, None) (Some [], ''file'', None) (Some index_unavailable) None None)
        [] ''QmBig'' = (Some [], ''file'', None)
   \<and> CrawlFile
        (constant_crawler (None, None) (Some [], ''file'', None) (Some index_unavailable) None None)
        (flaky_net 0 connection_refused ok_response)
        1 ''QmBig'' ''big.iso'' ''QmParent'' '''' 52428801 []
      = Some (Returned (Some index_unavailable),
              [EvGetReferences ''QmBig'',
               EvIndexItem ''file'' ''QmBig''
                 [''references'' \<mapsto> PReferences (Some [\<lparr>ref_Name = ''big.iso'', ref_ParentHash = ''QmParent''\<rparr>])]])"
proof -
  let ?new = "constant_crawler (None, None) (None, '''', None) None None None"
  let ?old = "constant_crawler (None, None) (Some [], ''file'', None) (Some index_unavailable) None None"
  let ?net = "flaky_net 0 connection_refused ok_response"
  have big: "METADATA_MAX_SIZE < (52428801 :: uint64)"
    by (simp add: METADATA_MAX_SIZE_def)
  have nf: "\<not> lookup_found (id_GetReferences ?new [] ''QmBig'')"
    by (simp add: lookup_found_def constant_crawler_def)
  have found: "id_GetReferences ?old [] ''QmBig'' = (Some [], ''file'', None)"
    by (simp add: constant_crawler_def)
  have store: "id_IndexItem ?old ([] @ [EvGetReferences ''QmBig'']) ''file'' ''QmBig''
                 [''references'' \<mapsto> PReferences
                    (Some ([] @ [\<lparr>ref_Name = ''big.iso'', ref_ParentHash = ''QmParent''\<rparr>]))]
               = Some index_unavailable"
    by (simp add: constant_crawler_def)
  from CrawlFile_too_large [OF big, where c = ?new and tr = "[]" and hash = "''QmBig''" and net = ?net
                             and fuel = 1 and name = "''big.iso''" and parent_hash = "''QmParent''"
                             and parent_name = "[]"] nf
  have a: "\<exists>e. CrawlFile ?new ?net 1 ''QmBig'' ''big.iso'' ''QmParent'' '''' 52428801 []
             = Some (Returned (Some e), [EvGetReferences ''QmBig''])"
    by simp
  from CrawlFile_too_large [OF big, where c = ?old and tr = "[]" and hash = "''QmBig''" and net = ?net
                             and fuel = 1 and name = "''big.iso''" and parent_hash = "''QmParent''"
                             and parent_name = "[]"]
       found store
  have b: "CrawlFile ?old ?net 1 ''QmBig'' ''big.iso'' ''QmParent'' '''' 52428801 []
             = Some (Returned (Some index_unavailable),
                     [EvGetReferences ''QmBig'',
                      EvIndexItem ''file'' ''QmBig''
                        [''references'' \<mapsto> PReferences (Some [\<lparr>ref_Name = ''big.iso'', ref_ParentHash = ''QmParent''\<rparr>])]])"
    by simp
  from big nf a found b show ?thesis by (simp only: simp_thms)
qed

text \<open>
  A file of 50 MiB and one byte whose hash is already indexed and is seen from a new
  parent: \<^verbatim>\<open>CrawlFile\<close> stores the new reference and returns \<^verbatim>\<open>nil\<close>.
\<close>

theorem CrawlFile_too_large_counterexample:
  "METADATA_MAX_SIZE < (52428801 :: uint64)
   \<and> CrawlFile (constant_crawler (None, None) (Some [], ''file'', None) None None None)
        (flaky_net 0 connection_refused \<lparr>resp_StatusCode = 200, resp_Status = ''200 OK'', resp_Body = ''{}''\<rparr>)
        1 ''QmBig'' ''big.iso'' ''QmParent'' '''' 52428801 []
      = Some (Returned None,
              [EvGetReferences ''QmBig'',
               EvIndexItem ''file'' ''QmBig''
                 [''references'' \<mapsto> PReferences (Some [\<lparr>ref_Name = ''big.iso'', ref_ParentHash = ''QmParent''\<rparr>])]])"
  by (simp add: CrawlFile_def index_references_def constant_crawler_def update_references_def
                METADATA_MAX_SIZE_def PARTIAL_SIZE_def)

text \<open>
  C8. For a file of size 0 whose hash the lookup finds no record of, \<^verbatim>\<open>CrawlFile\<close>
  does two things only, for any fuel: the lookup, and one index write of type
  \<^verbatim>\<open>file\<close> whose properties are the empty map extended with \<open>size\<close> 0 and
  \<open>references\<close>, the list that \<^verbatim>\<open>update_references\<close> made from \<^verbatim>\<open>nil\<close>. It
  returns what the indexer answered. No request goes to the extraction service. A size
  of 0 is never the size of a partial.
\<close>

theorem CrawlFile_empty_file:
  "id_GetReferences c tr hash = (None, item_type, None) \<Longrightarrow>
   CrawlFile c net fuel hash name parent_hash parent_name 0 tr
     = Some (Returned (id_IndexItem c (tr @ [EvGetReferences hash]) ''file'' hash
                         [''size'' \<mapsto> PUint64 0,
                          ''references'' \<mapsto> PReferences (Some (fst (update_references None name parent_hash)))]),
             tr @ [EvGetReferences hash,
                   EvIndexItem ''file'' hash
                     [''size'' \<mapsto> PUint64 0,
                      ''references'' \<mapsto> PReferences (Some (fst (update_references None name parent_hash)))]])"
  by (auto simp: CrawlFile_def index_references_new index_file_def PARTIAL_SIZE_def Let_def)

theorem CrawlFile_empty_file_witness:
  "id_GetReferences (constant_crawler (None, None) (None, '''', None) None None None) [] ''QmE''
     = (None, '''', None)
   \<and> CrawlFile (constant_crawler (None, None) (None, '''', None) None None None)
        (flaky_net 0 connection_refused \<lparr>resp_StatusCode = 200, resp_Status = ''200 OK'', resp_Body = ''{}''\<rparr>)
        0 ''QmE'' ''empty.txt'' ''QmParent'' '''' 0 []
     = Some (Returned None,
             [EvGetReferences ''QmE'',
              EvIndexItem ''file'' ''QmE''
                [''size'' \<mapsto> PUint64 0,
                 ''references'' \<mapsto> PReferences (Some [\<lparr>ref_Name = ''empty.txt'', ref_ParentHash = ''QmParent''\<rparr>])]])"
  using CrawlFile_empty_file
          [of "constant_crawler (None, None) (None, '''', None) None None None" "[]" "''QmE''" "[]"
              "flaky_net 0 connection_refused \<lparr>resp_StatusCode = 200, resp_Status = ''200 OK'', resp_Body = ''{}''\<rparr>"
              0 "''empty.txt''" "''QmParent''" "[]"]
  by (simp add: constant_crawler_def update_references_def)

section \<open>Objects that are neither files nor directories\<close>

text \<open>
  C10. Take a hash that the lookup finds no record of, whose listing fails \<open>k\<close>
  times with a retryable error and then succeeds with a type that is neither
  \<^verbatim>\<open>File\<close> nor \<^verbatim>\<open>Directory\<close>. Then \<^verbatim>\<open>CrawlHash\<close>, with any fuel above
  \<open>k\<close>, returns \<^verbatim>\<open>nil\<close>; it did the lookup, \<open>k\<close> listings each followed by a
  sleep and the last listing, and so published nothing to either queue and wrote nothing
  to the index.
\<close>

theorem CrawlHash_unsupported_type:
  "id_GetReferences c tr hash = (None, item_type, None) \<Longrightarrow>
   (\<forall>i<k. \<exists>e. snd (sh_FileList c (retry_trace (EvFileList (hashUrl hash)) (RECONNECT_WAIT * Second) i
                                    (tr @ [EvGetReferences hash])) (hashUrl hash)) = Some e
            \<and> spec_classify e = Retryable) \<Longrightarrow>
   sh_FileList c (retry_trace (EvFileList (hashUrl hash)) (RECONNECT_WAIT * Second) k
                    (tr @ [EvGetReferences hash])) (hashUrl hash) = (Some l, None) \<Longrightarrow>
   obj_Type l \<noteq> ''File'' \<Longrightarrow> obj_Type l \<noteq> ''Directory'' \<Longrightarrow> k < fuel \<Longrightarrow>
   CrawlHash c fuel hash name parent_hash parent_name tr
     = Some (Returned None,
             retry_trace (EvFileList (hashUrl hash)) (RECONNECT_WAIT * Second) k
               (tr @ [EvGetReferences hash]) @ [EvFileList (hashUrl hash)])
   \<and> publishes (retry_trace (EvFileList (hashUrl hash)) (RECONNECT_WAIT * Second) k
                   (tr @ [EvGetReferences hash]) @ [EvFileList (hashUrl hash)]) = publishes tr
   \<and> index_writes (retry_trace (EvFileList (hashUrl hash)) (RECONNECT_WAIT * Second) k
                      (tr @ [EvGetReferences hash]) @ [EvFileList (hashUrl hash)]) = index_writes tr"
proof -
  let ?url = "hashUrl hash"
  let ?T = "\<lambda>i. retry_trace (EvFileList ?url) (RECONNECT_WAIT * Second) i (tr @ [EvGetReferences hash])"
  assume new: "id_GetReferences c tr hash = (None, item_type, None)"
    and fails: "\<forall>i<k. \<exists>e. snd (sh_FileList c (?T i) ?url) = Some e \<and> spec_classify e = Retryable"
    and ok: "sh_FileList c (?T k) ?url = (Some l, None)"
    and ty: "obj_Type l \<noteq> ''File''" "obj_Type l \<noteq> ''Directory''"
    and fuel: "k < fuel"
  from fuel obtain n where "fuel = Suc (k + n)"
    using less_imp_Suc_add by blast
  then have n: "fuel = k + Suc n" by simp
  have "list_loop c fuel hash ?url (tr @ [EvGetReferences hash])
          = list_loop c (Suc n) hash ?url (?T k)"
    unfolding n by (rule list_loop_skip [OF fails])
  also have "\<dots> = Some (Returned (Some l, None), ?T k @ [EvFileList ?url])"
    using ok by (simp add: handleError_nil)
  finally have loop: "list_loop c fuel hash ?url (tr @ [EvGetReferences hash])
          = Some (Returned (Some l, None), ?T k @ [EvFileList ?url])" .
  have res: "CrawlHash c fuel hash name parent_hash parent_name tr
               = Some (Returned None, ?T k @ [EvFileList ?url])"
    using ty by (simp add: CrawlHash_def index_references_new [OF new] loop)
  have p: "publishes (?T k @ [EvFileList ?url]) = publishes tr"
    by (simp add: publishes_append publishes_retry_trace is_publish_def)
       (simp add: publishes_def is_publish_def)
  have w: "index_writes (?T k @ [EvFileList ?url]) = index_writes tr"
    by (simp add: index_writes_append index_writes_retry_trace is_index_write_def)
       (simp add: index_writes_def is_index_write_def)
  from res p w show ?thesis by simp
qed

theorem CrawlHash_unsupported_type_witness:
  "CrawlHash (flaky_crawler 2 connection_refused symlink_object) 3 ''QmLink'' ''link'' ''QmParent'' '''' []
     = Some (Returned None,
             [EvGetReferences ''QmLink'',
              EvFileList ''/ipfs/QmLink'', EvSleep 2000000000,
              EvFileList ''/ipfs/QmLink'', EvSleep 2000000000,
              EvFileList ''/ipfs/QmLink''])"
proof -
  let ?c = "flaky_crawler 2 connection_refused symlink_object"
  let ?T = "\<lambda>i. retry_trace (EvFileList (hashUrl ''QmLink'')) (RECONNECT_WAIT * Second) i
                   ([] @ [EvGetReferences ''QmLink''])"
  have s0: "sleeps [EvGetReferences ''QmLink''] = 0"
    by (simp add: sleeps_def is_sleep_def)
  have s: "\<And>i. sleeps (?T i) = i"
    by (simp only: append_Nil) (simp add: sleeps_retry_trace is_sleep_def s0)
  have retryable: "spec_classify connection_refused = Retryable"
    by (simp add: spec_classify_def is_protocol_error_def is_timeout_def
                  is_temporary_network_def connection_refused_def)
  have h1: "id_GetReferences ?c [] ''QmLink'' = (None, '''', None)"
    by (simp add: flaky_crawler_def)
  have h2: "\<forall>i<2. \<exists>e. snd (sh_FileList ?c (?T i) (hashUrl ''QmLink'')) = Some e
              \<and> spec_classify e = Retryable"
  proof (intro allI impI)
    fix i :: nat
    assume "i < 2"
    then have "sh_FileList ?c (?T i) (hashUrl ''QmLink'') = (None, Some connection_refused)"
      by (simp only: flaky_crawler_def Crawler.simps s) simp
    with retryable
    show "\<exists>e. snd (sh_FileList ?c (?T i) (hashUrl ''QmLink'')) = Some e \<and> spec_classify e = Retryable"
      by simp
  qed
  have h3: "sh_FileList ?c (?T 2) (hashUrl ''QmLink'') = (Some symlink_object, None)"
    by (simp only: flaky_crawler_def Crawler.simps s) simp
  have h4: "obj_Type symlink_object \<noteq> ''File''" and h5: "obj_Type symlink_object \<noteq> ''Directory''"
    by (simp_all add: symlink_object_def)
  have h6: "(2::nat) < 3" by simp
  have t: "?T 2 @ [EvFileList (hashUrl ''QmLink'')]
             = [EvGetReferences ''QmLink'',
                EvFileList ''/ipfs/QmLink'', EvSleep 2000000000,
                EvFileList ''/ipfs/QmLink'', EvSleep 2000000000,
                EvFileList ''/ipfs/QmLink'']"
    by (simp add: retry_trace_def replicate_2 hashUrl_def RECONNECT_WAIT_def Second_def)
  have "CrawlHash ?c 3 ''QmLink'' ''link'' ''QmParent'' '''' []
          = Some (Returned None, ?T 2 @ [EvFileList (hashUrl ''QmLink'')])"
    using CrawlHash_unsupported_type [OF h1 h2 h3 h4 h5 h6, of "''link''" "''QmParent''" "[]"]
    by (rule conjunct1)
  then show ?thesis by (simp only: t)
qed

section \<open>The reconnect counter\<close>

lemma monitor_failures:
  "errCnt s + int n \<le> maxReconnect + 1 \<Longrightarrow> 0 < n \<Longrightarrow>
   monitorConn s (replicate n (Closed d (Some e)))
     = Waiting \<lparr>errCnt = errCnt s + int n, conn = d\<rparr>"
proof (induction n arbitrary: s)
  case 0
  then show ?case by simp
next
  case (Suc n)
  show ?case
  proof (cases n)
    case 0
    with Suc.prems show ?thesis by (simp add: monitor_step_def)
  next
    case (Suc m)
    with Suc.prems Suc.IH [of "s\<lparr>errCnt := errCnt s + 1, conn := d\<rparr>"]
    show ?thesis by (simp add: monitor_step_def)
  qed
qed

lemma monitorConn_append:
  "monitorConn s (xs @ ys) =
     (case monitorConn s xs of Waiting s1 \<Rightarrow> monitorConn s1 ys
      | Stopped \<Rightarrow> Stopped | MonitorPanic m \<Rightarrow> MonitorPanic m)"
  by (induction xs arbitrary: s) (simp_all split: monitor_result.splits)

lemma monitor_step_bound:
  "errCnt s \<le> maxReconnect + 1 \<Longrightarrow> monitor_step s ev = Waiting s1 \<Longrightarrow>
   errCnt s1 \<le> maxReconnect + 1"
  by (auto simp: monitor_step_def split: monitor_event.splits if_splits)

lemma monitor_stores_connection:
  "monitor_step s (Closed d e) = Waiting s1 \<Longrightarrow> conn s1 = d"
  by (auto simp: monitor_step_def split: if_splits)

text \<open>
  C9. The counter of \<^verbatim>\<open>monitorConn\<close> is compared with \<open>maxReconnect\<close> before it is
  incremented, and with \<^verbatim>\<open>>\<close>. After 101 redials in a row that were refused (the
  dial returns no connection and an error) the monitor is still waiting, its counter at
  101, above the ceiling of 100; only the 102nd failed redial panics. The counter never
  goes beyond \<open>maxReconnect + 1\<close> (\<open>monitor_step_bound\<close>).
\<close>

theorem reconnect_ceiling_overrun:
  "monitorConn \<lparr>errCnt = 0, conn = Some 0\<rparr> (replicate 101 (Closed None (Some connection_refused)))
     = Waiting \<lparr>errCnt = 101, conn = None\<rparr>
   \<and> maxReconnect < 101
   \<and> monitorConn \<lparr>errCnt = 0, conn = Some 0\<rparr> (replicate 102 (Closed None (Some connection_refused)))
     = MonitorPanic ''Repeated AMQP reconnect errors''"
proof -
  let ?s = "\<lparr>errCnt = 0, conn = Some 0\<rparr>"
  let ?f = "Closed None (Some connection_refused)"
  have a: "monitorConn ?s (replicate 101 ?f) = Waiting \<lparr>errCnt = 101, conn = None\<rparr>"
    using monitor_failures [of ?s 101 None connection_refused] by (simp add: maxReconnect_def)
  have "replicate 102 ?f = replicate (101 + 1) ?f" by simp
  also have "\<dots> = replicate 101 ?f @ replicate 1 ?f" by (rule replicate_add)
  finally have r: "replicate 102 ?f = replicate 101 ?f @ [?f]" by simp
  have "monitorConn ?s (replicate 101 ?f @ [?f]) = MonitorPanic ''Repeated AMQP reconnect errors''"
    by (simp only: monitorConn_append a) (simp add: monitor_step_def maxReconnect_def)
  with r have b: "monitorConn ?s (replicate 102 ?f) = MonitorPanic ''Repeated AMQP reconnect errors''"
    by (simp only:)
  from a b show ?thesis by (simp add: maxReconnect_def)
qed

end
